theory Spec2Isabelle
  imports Main
begin

section \<open>The database abstraction layer of tujifund-app\<close>

text \<open>
  A shallow embedding of the Go code of the database abstraction layer: the SQLite driver
  of the package \<^verbatim>\<open>database\<close> (\<^verbatim>\<open>backend/database\<close>), and the PostgreSQL driver, the
  driver factory, the schema manager and the migration script of the implementation guide
  \<^verbatim>\<open>docs/DB_ABSTRACTION_IMPLEMENTATION.md\<close>, which also gives a second version of the
  SQLite driver.

  A Go \<^verbatim>\<open>string\<close> is a sequence of bytes, here a \<^typ>\<open>string\<close> (a list of 8-bit
  characters). A Go \<^verbatim>\<open>error\<close> is a value of the datatype \<open>error\<close>, \<^verbatim>\<open>nil\<close> is
  \<^const>\<open>None\<close>. Everything the code asks of the operating system or of a database engine
  is a parameter of the model.
\<close>

subsection \<open>The pieces of the Go standard library the code calls\<close>

text \<open>
  \<^verbatim>\<open>strings.Split(s, sep)\<close> for a separator of one byte, the only way the code calls it
  (\<^verbatim>\<open>"?"\<close> and \<^verbatim>\<open>";"\<close>): the pieces of \<open>s\<close> between the separators, one more piece
  than there are separators.
\<close>

fun Split :: "string \<Rightarrow> char \<Rightarrow> string list" where
  "Split [] sep = [[]]"
| "Split (c # s) sep =
     (if c = sep then [] # Split s sep
      else (case Split s sep of [] \<Rightarrow> [[c]] | p # ps \<Rightarrow> (c # p) # ps))"

text \<open>
  \<^verbatim>\<open>strings.HasPrefix(s, prefix)\<close>, and \<^verbatim>\<open>strings.Contains(s, substr)\<close>: \<open>substr\<close>
  occurs in \<open>s\<close> at some position.
\<close>

definition HasPrefix :: "string \<Rightarrow> string \<Rightarrow> bool" where
  "HasPrefix s p = (take (length p) s = p)"

fun Contains :: "string \<Rightarrow> string \<Rightarrow> bool" where
  "Contains [] substr = (substr = [])"
| "Contains (c # s) substr = (HasPrefix (c # s) substr \<or> Contains s substr)"

text \<open>
  The decimal rendering of a non-negative integer, which is what the verb \<^verbatim>\<open>%d\<close> of
  \<^verbatim>\<open>fmt.Sprintf\<close> prints for it.
\<close>

definition digit :: "nat \<Rightarrow> char" where
  "digit n = ''0123456789'' ! n"

fun itoa :: "nat \<Rightarrow> string" where
  "itoa n = (if n < 10 then [digit n] else itoa (n div 10) @ [digit (n mod 10)])"

text \<open>
  \<^verbatim>\<open>strings.TrimSpace(s)\<close> removes the leading and the trailing white space of \<open>s\<close>, as
  \<^verbatim>\<open>unicode.IsSpace\<close> defines it. On the bytes of the string that is: the UTF-8 encodings
  of the white-space code points are stripped from the front while the string starts with
  one of them, then from the back while it ends with one. (A byte that does not start a
  well-formed encoding decodes to \<^verbatim>\<open>utf8.RuneError\<close>, which is not white space.)
\<close>

definition space_encodings :: "string list" where
  "space_encodings =
     [[CHR 0x09], [CHR 0x0A], [CHR 0x0B], [CHR 0x0C], [CHR 0x0D], [CHR 0x20],
      [CHR 0xC2, CHR 0x85], [CHR 0xC2, CHR 0xA0], [CHR 0xE1, CHR 0x9A, CHR 0x80],
      [CHR 0xE2, CHR 0x80, CHR 0x80], [CHR 0xE2, CHR 0x80, CHR 0x81],
      [CHR 0xE2, CHR 0x80, CHR 0x82], [CHR 0xE2, CHR 0x80, CHR 0x83],
      [CHR 0xE2, CHR 0x80, CHR 0x84], [CHR 0xE2, CHR 0x80, CHR 0x85],
      [CHR 0xE2, CHR 0x80, CHR 0x86], [CHR 0xE2, CHR 0x80, CHR 0x87],
      [CHR 0xE2, CHR 0x80, CHR 0x88], [CHR 0xE2, CHR 0x80, CHR 0x89],
      [CHR 0xE2, CHR 0x80, CHR 0x8A], [CHR 0xE2, CHR 0x80, CHR 0xA8],
      [CHR 0xE2, CHR 0x80, CHR 0xA9], [CHR 0xE2, CHR 0x80, CHR 0xAF],
      [CHR 0xE2, CHR 0x81, CHR 0x9F], [CHR 0xE3, CHR 0x80, CHR 0x80]]"

definition leading :: "string list \<Rightarrow> string \<Rightarrow> nat" where
  "leading encs s = (case find (HasPrefix s) encs of None \<Rightarrow> 0 | Some e \<Rightarrow> length e)"

function trimLeft :: "string list \<Rightarrow> string \<Rightarrow> string" where
  "trimLeft encs s =
     (if s \<noteq> [] \<and> 0 < leading encs s then trimLeft encs (drop (leading encs s) s) else s)"
  by pat_completeness auto
termination
  by (relation "measure (\<lambda>(encs, s). length s)") auto

declare trimLeft.simps [simp del]

definition TrimSpace :: "string \<Rightarrow> string" where
  "TrimSpace s =
     rev (trimLeft (map rev space_encodings) (rev (trimLeft space_encodings s)))"

subsection \<open>Errors\<close>

text \<open>
  An error is either one the environment produced, with its message, or one that
  \<^verbatim>\<open>fmt.Errorf(prefix + "%w", err)\<close> built around another error. \<open>Error\<close> is the method
  \<^verbatim>\<open>Error()\<close>, \<open>Unwrap\<close> what \<^verbatim>\<open>errors.Unwrap\<close> returns.
\<close>

datatype error = New string | Errorf string error

fun Error :: "error \<Rightarrow> string" where
  "Error (New msg) = msg"
| "Error (Errorf pre err) = pre @ Error err"

fun Unwrap :: "error \<Rightarrow> error option" where
  "Unwrap (New msg) = None"
| "Unwrap (Errorf pre err) = Some err"

subsection \<open>Configuration\<close>

record DBConfig =
  Driver :: string
  SQLitePath :: string
  Host :: string
  Port :: int
  User :: string
  Password :: string
  DBName :: string
  SSLMode :: string
  MaxOpenConns :: int
  MaxIdleConns :: int
  ConnMaxLifetime :: int

definition NewSQLiteConfig :: "string \<Rightarrow> DBConfig" where
  "NewSQLiteConfig path =
     \<lparr>Driver = ''sqlite'', SQLitePath = path, Host = [], Port = 0, User = [],
      Password = [], DBName = [], SSLMode = [],
      MaxOpenConns = 1, MaxIdleConns = 2, ConnMaxLifetime = 3600\<rparr>"

definition NewPostgresConfig ::
  "string \<Rightarrow> int \<Rightarrow> string \<Rightarrow> string \<Rightarrow> string \<Rightarrow> string \<Rightarrow> DBConfig" where
  "NewPostgresConfig host port user password dbname sslmode =
     \<lparr>Driver = ''postgres'', SQLitePath = [], Host = host, Port = port, User = user,
      Password = password, DBName = dbname, SSLMode = sslmode,
      MaxOpenConns = 10, MaxIdleConns = 5, ConnMaxLifetime = 3600\<rparr>"

subsection \<open>The connection pool and the driver handles\<close>

text \<open>
  What the code sets on a \<^verbatim>\<open>*sql.DB\<close>: the driver name and the data source name it was
  opened with, and the pool limits. A fresh pool has no limit on open connections
  (\<open>maxOpen = 0\<close>) and the default number of idle ones.
\<close>

record DB =
  driverName :: string
  dataSourceName :: string
  maxOpen :: int
  maxIdle :: int
  maxLifetime :: int

definition defaultMaxIdleConns :: int where
  "defaultMaxIdleConns = 2"

definition OpenDB :: "string \<Rightarrow> string \<Rightarrow> DB" where
  "OpenDB name dsn =
     \<lparr>driverName = name, dataSourceName = dsn, maxOpen = 0,
      maxIdle = defaultMaxIdleConns, maxLifetime = 0\<rparr>"

text \<open>
  \<^verbatim>\<open>SetMaxOpenConns(n)\<close>: \<open>n \<le> 0\<close> means no limit; a positive limit below the number
  of idle connections allowed lowers that number to the limit.
\<close>

definition SetMaxOpenConns :: "int \<Rightarrow> DB \<Rightarrow> DB" where
  "SetMaxOpenConns n db =
     (let m = (if n < 0 then 0 else n)
      in db\<lparr>maxOpen := m, maxIdle := (if 0 < m \<and> m < maxIdle db then m else maxIdle db)\<rparr>)"

text \<open>
  \<^verbatim>\<open>SetMaxIdleConns(n)\<close>: \<open>n \<le> 0\<close> keeps no idle connection; a value above a positive
  limit on open connections is lowered to that limit.
\<close>

definition SetMaxIdleConns :: "int \<Rightarrow> DB \<Rightarrow> DB" where
  "SetMaxIdleConns n db =
     (let k = (if 0 < n then n else 0)
      in db\<lparr>maxIdle := (if 0 < maxOpen db \<and> maxOpen db < k then maxOpen db else k)\<rparr>)"

definition SetConnMaxLifetime :: "int \<Rightarrow> DB \<Rightarrow> DB" where
  "SetConnMaxLifetime d db = db\<lparr>maxLifetime := (if d < 0 then 0 else d)\<rparr>"

text \<open>
  The number of connections the pool may hold open at once: \<^const>\<open>None\<close> when there is
  no limit.
\<close>

definition open_limit :: "DB \<Rightarrow> nat option" where
  "open_limit db = (if maxOpen db \<le> 0 then None else Some (nat (maxOpen db)))"

text \<open>
  A driver handle holds the pool (\<^verbatim>\<open>nil\<close>, here \<^const>\<open>None\<close>, before a successful
  \<^verbatim>\<open>Connect\<close>) and the configuration it was connected with. The two driver types have
  the same fields.
\<close>

record SQLiteDriver =
  sqlite_db :: "DB option"
  sqlite_conf :: DBConfig

record PostgresDriver =
  postgres_db :: "DB option"
  postgres_conf :: DBConfig

datatype DBDriver = SQLite SQLiteDriver | Postgres PostgresDriver

subsection \<open>Dialects and placeholders\<close>

definition SQLiteDriver_GetDialect :: "SQLiteDriver \<Rightarrow> string" where
  "SQLiteDriver_GetDialect d = ''sqlite''"

definition SQLiteDriver_TransformQuery :: "SQLiteDriver \<Rightarrow> string \<Rightarrow> string" where
  "SQLiteDriver_TransformQuery d query = query"

definition PostgresDriver_GetDialect :: "PostgresDriver \<Rightarrow> string" where
  "PostgresDriver_GetDialect d = ''postgres''"

text \<open>
  The loop of \<^verbatim>\<open>PostgresDriver.TransformQuery\<close>: \<open>i\<close> is the loop index, the list holds
  \<^verbatim>\<open>parts[i:]\<close>.
\<close>

fun TransformQuery_loop :: "nat \<Rightarrow> string list \<Rightarrow> string \<Rightarrow> string" where
  "TransformQuery_loop i [] result = result"
| "TransformQuery_loop i (p # ps) result =
     TransformQuery_loop (i + 1) ps (result @ ''$'' @ itoa i @ p)"

definition PostgresDriver_TransformQuery :: "PostgresDriver \<Rightarrow> string \<Rightarrow> string" where
  "PostgresDriver_TransformQuery d query =
     (let parts = Split query (CHR ''?'')
      in if length parts \<le> 1 then query
         else TransformQuery_loop 1 (tl parts) (hd parts))"

fun GetDialect :: "DBDriver \<Rightarrow> string" where
  "GetDialect (SQLite d) = SQLiteDriver_GetDialect d"
| "GetDialect (Postgres d) = PostgresDriver_GetDialect d"

fun TransformQuery :: "DBDriver \<Rightarrow> string \<Rightarrow> string" where
  "TransformQuery (SQLite d) query = SQLiteDriver_TransformQuery d query"
| "TransformQuery (Postgres d) query = PostgresDriver_TransformQuery d query"

subsection \<open>Connecting\<close>

text \<open>
  What a call returns: \<^verbatim>\<open>nil\<close>, an error, or no value at all because the call panicked
  (a method called through a \<^verbatim>\<open>nil\<close> pool dereferences it).
\<close>

datatype outcome = ReturnNil | ReturnErr error | Panic

text \<open>
  The environment of \<^verbatim>\<open>Connect\<close>: \<open>os_MkdirAll_Dir p\<close> is the result of
  \<^verbatim>\<open>os.MkdirAll(filepath.Dir(p), 0755)\<close>, \<open>sql_Open name dsn\<close> the error of
  \<^verbatim>\<open>sql.Open(name, dsn)\<close>, \<open>db_Ping\<close> and \<open>db_Exec\<close> the errors of \<^verbatim>\<open>db.Ping()\<close> and
  \<^verbatim>\<open>db.Exec(statement)\<close> on a pool.
\<close>

record system =
  os_MkdirAll_Dir :: "string \<Rightarrow> error option"
  sql_Open :: "string \<Rightarrow> string \<Rightarrow> error option"
  db_Ping :: "DB \<Rightarrow> error option"
  db_Exec :: "DB \<Rightarrow> string \<Rightarrow> error option"

text \<open>\<^verbatim>\<open>sql.Open\<close> returns a \<^verbatim>\<open>nil\<close> pool together with an error.\<close>

definition Open :: "system \<Rightarrow> string \<Rightarrow> string \<Rightarrow> DB option \<times> error option" where
  "Open sys name dsn =
     (case sql_Open sys name dsn of
        Some err \<Rightarrow> (None, Some err)
      | None \<Rightarrow> (Some (OpenDB name dsn), None))"

definition zeroDBConfig :: DBConfig where
  "zeroDBConfig =
     \<lparr>Driver = [], SQLitePath = [], Host = [], Port = 0, User = [], Password = [],
      DBName = [], SSLMode = [], MaxOpenConns = 0, MaxIdleConns = 0, ConnMaxLifetime = 0\<rparr>"

text \<open>\<^verbatim>\<open>&SQLiteDriver{}\<close> and \<^verbatim>\<open>&PostgresDriver{}\<close>.\<close>

definition newSQLiteDriver :: SQLiteDriver where
  "newSQLiteDriver = \<lparr>sqlite_db = None, sqlite_conf = zeroDBConfig\<rparr>"

definition newPostgresDriver :: PostgresDriver where
  "newPostgresDriver = \<lparr>postgres_db = None, postgres_conf = zeroDBConfig\<rparr>"

text \<open>
  \<^verbatim>\<open>SQLiteDriver.Connect\<close> of \<^verbatim>\<open>backend/database\<close>. The branch for an error of
  \<^verbatim>\<open>sql.Open\<close> is empty there, so the code goes on to \<^verbatim>\<open>db.Ping()\<close> with the
  \<^verbatim>\<open>nil\<close> pool.
\<close>

definition SQLiteDriver_Connect ::
  "system \<Rightarrow> SQLiteDriver \<Rightarrow> DBConfig \<Rightarrow> outcome \<times> SQLiteDriver" where
  "SQLiteDriver_Connect sys d conf =
     (case os_MkdirAll_Dir sys (SQLitePath conf) of
        Some err \<Rightarrow> (ReturnErr (Errorf ''failed to create database directory: '' err), d)
      | None \<Rightarrow>
          (let dsn = ''file:'' @ SQLitePath conf @ ''?cache=shared&_journal_mode=WAL''
           in case fst (Open sys ''sqlite'' dsn) of
                None \<Rightarrow> (Panic, d)
              | Some db \<Rightarrow>
                  (case db_Ping sys db of
                     Some err \<Rightarrow>
                       (ReturnErr (Errorf ''failed to ping the SQLite database: '' err), d)
                   | None \<Rightarrow>
                       (case db_Exec sys db ''PRAGMA foreign_keys = ON:'' of
                          Some err \<Rightarrow>
                            (ReturnErr (Errorf ''failed to enable foreign keys: '' err), d)
                        | None \<Rightarrow>
                            (ReturnNil,
                             d\<lparr>sqlite_db :=
                                 Some (SetMaxIdleConns (MaxIdleConns conf)
                                        (SetMaxOpenConns (MaxOpenConns conf) db)),
                               sqlite_conf := conf\<rparr>)))))"

text \<open>
  \<^verbatim>\<open>SQLiteDriver.Connect\<close> as the implementation guide gives it: an error of
  \<^verbatim>\<open>sql.Open\<close> is returned, and the pragma ends with a semicolon.
\<close>

definition SQLiteDriver_Connect_guide ::
  "system \<Rightarrow> SQLiteDriver \<Rightarrow> DBConfig \<Rightarrow> outcome \<times> SQLiteDriver" where
  "SQLiteDriver_Connect_guide sys d conf =
     (case os_MkdirAll_Dir sys (SQLitePath conf) of
        Some err \<Rightarrow> (ReturnErr (Errorf ''failed to create database directory: '' err), d)
      | None \<Rightarrow>
          (let dsn = ''file:'' @ SQLitePath conf @ ''?cache=shared&_journal_mode=WAL''
           in case Open sys ''sqlite'' dsn of
                (_, Some err) \<Rightarrow>
                  (ReturnErr (Errorf ''failed to connect to SQLite database: '' err), d)
              | (None, None) \<Rightarrow> (Panic, d)
              | (Some db, None) \<Rightarrow>
                  (case db_Ping sys db of
                     Some err \<Rightarrow> (ReturnErr (Errorf ''failed to ping SQLite database: '' err), d)
                   | None \<Rightarrow>
                       (case db_Exec sys db ''PRAGMA foreign_keys = ON;'' of
                          Some err \<Rightarrow>
                            (ReturnErr (Errorf ''failed to enable foreign keys: '' err), d)
                        | None \<Rightarrow>
                            (ReturnNil,
                             d\<lparr>sqlite_db :=
                                 Some (SetMaxIdleConns (MaxIdleConns conf)
                                        (SetMaxOpenConns (MaxOpenConns conf) db)),
                               sqlite_conf := conf\<rparr>)))))"

text \<open>The verb \<^verbatim>\<open>%d\<close> for a Go \<^verbatim>\<open>int\<close>, and the wrap-around of an \<^verbatim>\<open>int64\<close>.\<close>

definition itoa_int :: "int \<Rightarrow> string" where
  "itoa_int i = (if i < 0 then ''-'' @ itoa (nat (- i)) else itoa (nat i))"

definition int64 :: "int \<Rightarrow> int" where
  "int64 i = (i + 2 ^ 63) mod 2 ^ 64 - 2 ^ 63"

definition PostgresDriver_Connect ::
  "system \<Rightarrow> PostgresDriver \<Rightarrow> DBConfig \<Rightarrow> outcome \<times> PostgresDriver" where
  "PostgresDriver_Connect sys d conf =
     (let dsn = ''host='' @ Host conf @ '' port='' @ itoa_int (Port conf)
                @ '' user='' @ User conf @ '' password='' @ Password conf
                @ '' dbname='' @ DBName conf @ '' sslmode='' @ SSLMode conf
      in case Open sys ''postgres'' dsn of
           (_, Some err) \<Rightarrow>
             (ReturnErr (Errorf ''failed to connect to PostgreSQL database: '' err), d)
         | (None, None) \<Rightarrow> (Panic, d)
         | (Some db, None) \<Rightarrow>
             (case db_Ping sys db of
                Some err \<Rightarrow>
                  (ReturnErr (Errorf ''failed to ping PostgreSQL database: '' err), d)
              | None \<Rightarrow>
                  (ReturnNil,
                   d\<lparr>postgres_db :=
                       Some (SetConnMaxLifetime (int64 (int64 (ConnMaxLifetime conf) * 1000000000))
                              (SetMaxIdleConns (MaxIdleConns conf)
                                (SetMaxOpenConns (MaxOpenConns conf) db))),
                     postgres_conf := conf\<rparr>)))"

text \<open>
  The factory \<^verbatim>\<open>NewDriver\<close>: the driver it returns is \<^verbatim>\<open>nil\<close> (\<^const>\<open>None\<close>) whenever
  \<^verbatim>\<open>Connect\<close> returned an error.
\<close>

definition NewDriver :: "system \<Rightarrow> DBConfig \<Rightarrow> outcome \<times> DBDriver option" where
  "NewDriver sys conf =
     (if Driver conf = ''sqlite'' then
        (case SQLiteDriver_Connect sys newSQLiteDriver conf of
           (ReturnNil, driver) \<Rightarrow> (ReturnNil, Some (SQLite driver))
         | (ReturnErr err, driver) \<Rightarrow> (ReturnErr err, None)
         | (Panic, driver) \<Rightarrow> (Panic, None))
      else if Driver conf = ''postgres'' then
        (case PostgresDriver_Connect sys newPostgresDriver conf of
           (ReturnNil, driver) \<Rightarrow> (ReturnNil, Some (Postgres driver))
         | (ReturnErr err, driver) \<Rightarrow> (ReturnErr err, None)
         | (Panic, driver) \<Rightarrow> (Panic, None))
      else (ReturnErr (New (''unsupported database driver: '' @ Driver conf)), None))"

subsection \<open>The schema manager\<close>

text \<open>
  The files the schema manager looks at: \<open>os_Stat_IsNotExist p\<close> says that \<^verbatim>\<open>os.Stat(p)\<close>
  fails with an error for which \<^verbatim>\<open>os.IsNotExist\<close> holds, \<open>os_ReadFile p\<close> is the result
  of \<^verbatim>\<open>os.ReadFile(p)\<close>. \<^verbatim>\<open>filepath.Join\<close> of two clean, non-empty elements puts the
  separator between them.
\<close>

record files =
  os_Stat_IsNotExist :: "string \<Rightarrow> bool"
  os_ReadFile :: "string \<Rightarrow> error + string"

definition filepath_Join :: "string \<Rightarrow> string \<Rightarrow> string" where
  "filepath_Join dir name = dir @ ''/'' @ name"

text \<open>
  The database engine behind a pool: a statement takes the database from one state to the
  next and may fail. \<^verbatim>\<open>Exec\<close> of a driver hands the statement to its pool
  (\<^verbatim>\<open>d.db.Exec(query, args...)\<close>), which panics when the pool is \<^verbatim>\<open>nil\<close>
  (\<^const>\<open>None\<close> here).
\<close>

type_synonym 'db engine = "'db \<Rightarrow> string \<Rightarrow> 'db \<times> error option"

fun driver_db :: "DBDriver \<Rightarrow> DB option" where
  "driver_db (SQLite d) = sqlite_db d"
| "driver_db (Postgres d) = postgres_db d"

definition Exec :: "'db engine \<Rightarrow> DBDriver \<Rightarrow> 'db \<Rightarrow> string \<Rightarrow> ('db \<times> error option) option" where
  "Exec eng drv db query = (case driver_db drv of None \<Rightarrow> None | Some pool \<Rightarrow> Some (eng db query))"

record SchemaManager =
  driver :: DBDriver

definition NewSchemaManager :: "DBDriver \<Rightarrow> SchemaManager" where
  "NewSchemaManager drv = \<lparr>driver = drv\<rparr>"

text \<open>
  The loop over the statements of \<^verbatim>\<open>SchemaManager.InitializeSchema\<close>. Besides what the
  call returns, the result holds the state the database is left in and the statements
  handed to \<^verbatim>\<open>Exec\<close> so far, in the order of the calls.
\<close>

fun InitializeSchema_loop ::
  "'db engine \<Rightarrow> DBDriver \<Rightarrow> string list \<Rightarrow> 'db \<Rightarrow> string list \<Rightarrow> outcome \<times> 'db \<times> string list" where
  "InitializeSchema_loop eng drv [] db log = (ReturnNil, db, log)"
| "InitializeSchema_loop eng drv (s # statements) db log =
     (let stmt = TrimSpace s
      in if stmt = [] then InitializeSchema_loop eng drv statements db log
         else
           (let stmt = TransformQuery drv stmt
            in case Exec eng drv db stmt of
                 None \<Rightarrow> (Panic, db, log)
               | Some (db', None) \<Rightarrow> InitializeSchema_loop eng drv statements db' (log @ [stmt])
               | Some (db', Some err) \<Rightarrow>
                   (if \<not> Contains (Error err) ''already exists''
                    then (ReturnErr (Errorf ''failed to execute schema statement: '' err),
                          db', log @ [stmt])
                    else InitializeSchema_loop eng drv statements db' (log @ [stmt]))))"

definition SchemaManager_InitializeSchema ::
  "files \<Rightarrow> 'db engine \<Rightarrow> SchemaManager \<Rightarrow> 'db \<Rightarrow> outcome \<times> 'db \<times> string list" where
  "SchemaManager_InitializeSchema fs eng sm db =
     (let dialect = GetDialect (driver sm);
          schemaPath = filepath_Join ''database'' (''schema_'' @ dialect @ ''.sql'');
          schemaPath = (if os_Stat_IsNotExist fs schemaPath
                        then filepath_Join ''database'' ''database_schema.sql''
                        else schemaPath)
      in case os_ReadFile fs schemaPath of
           Inl err \<Rightarrow> (ReturnErr (Errorf ''failed to read schema file: '' err), db, [])
         | Inr schema \<Rightarrow>
             InitializeSchema_loop eng (driver sm) (Split schema (CHR '';'')) db [])"

text \<open>
  For the statements about the loop: the statements that reach the engine, which are the
  non-blank pieces of the schema, trimmed and transformed; and the state of the database
  after a list of statements, whatever their results.
\<close>

definition sent :: "DBDriver \<Rightarrow> string list \<Rightarrow> string list" where
  "sent drv pieces = map (TransformQuery drv) (filter (\<lambda>s. s \<noteq> []) (map TrimSpace pieces))"

definition schema_statements :: "DBDriver \<Rightarrow> string \<Rightarrow> string list" where
  "schema_statements drv schema = sent drv (Split schema (CHR '';''))"

definition db_after :: "'db engine \<Rightarrow> 'db \<Rightarrow> string list \<Rightarrow> 'db" where
  "db_after eng db stmts = fold (\<lambda>stmt db. fst (eng db stmt)) stmts db"

subsection \<open>The migration runner\<close>

text \<open>
  \<^verbatim>\<open>migrateData(source, target)\<close> of the migration script. Its body is a comment
  (\<^verbatim>\<open>// Implement data migration logic for each table\<close>) and \<^verbatim>\<open>return nil\<close>: it calls
  nothing on either driver. The result holds, besides what the call returns, the state the
  target database is left in and the statements executed on it. Nothing in the sources reads
  the configuration fields \<^verbatim>\<open>Migration.BatchSize\<close>, \<^verbatim>\<open>TimeoutSeconds\<close> and
  \<^verbatim>\<open>RetryAttempts\<close>.
\<close>

definition migrateData ::
  "'db engine \<Rightarrow> DBDriver \<Rightarrow> DBDriver \<Rightarrow> 'db \<Rightarrow> 'db \<Rightarrow> outcome \<times> 'db \<times> string list" where
  "migrateData eng source target source_db target_db = (ReturnNil, target_db, [])"

text \<open>
  Running the script again calls \<^verbatim>\<open>migrateData\<close> again on the target the run before left:
  \<open>k\<close> runs in a row, with the state of the target and the statements executed on it in
  all.
\<close>

fun migrateData_runs ::
  "nat \<Rightarrow> 'db engine \<Rightarrow> DBDriver \<Rightarrow> DBDriver \<Rightarrow> 'db \<Rightarrow> 'db \<Rightarrow> 'db \<times> string list" where
  "migrateData_runs 0 eng source target source_db target_db = (target_db, [])"
| "migrateData_runs (Suc k) eng source target source_db target_db =
     (case migrateData_runs k eng source target source_db target_db of
        (db, log) \<Rightarrow>
          (case migrateData eng source target source_db db of
             (result, db', log') \<Rightarrow> (db', log @ log')))"

subsection \<open>Example environments\<close>

text \<open>A system in which every call succeeds, and one in which the pool cannot be opened.\<close>

definition accepting_system :: system where
  "accepting_system =
     \<lparr>os_MkdirAll_Dir = (\<lambda>p. None), sql_Open = (\<lambda>name dsn. None),
      db_Ping = (\<lambda>db. None), db_Exec = (\<lambda>db stmt. None)\<rparr>"

definition open_failing_system :: system where
  "open_failing_system =
     accepting_system\<lparr>sql_Open := (\<lambda>name dsn. Some (New ''unable to open database file''))\<rparr>"

text \<open>
  A system whose engine takes the pragma \<^verbatim>\<open>PRAGMA foreign_keys = ON;\<close> and rejects every
  other statement.
\<close>

definition pragma_system :: system where
  "pragma_system =
     accepting_system\<lparr>db_Exec := (\<lambda>db stmt.
        if stmt = ''PRAGMA foreign_keys = ON;'' then None
        else Some (New ''SQL logic error: unrecognized token''))\<rparr>"

text \<open>
  Systems in which the directory of the database file cannot be created, and in which the
  database does not answer the ping.
\<close>

definition mkdir_failing_system :: system where
  "mkdir_failing_system =
     accepting_system\<lparr>os_MkdirAll_Dir := (\<lambda>p. Some (New ''mkdir data: permission denied''))\<rparr>"

definition ping_failing_system :: system where
  "ping_failing_system =
     accepting_system\<lparr>db_Ping := (\<lambda>db. Some (New ''unable to open database file''))\<rparr>"

text \<open>A system whose engine answers every statement with an error.\<close>

definition locked_system :: system where
  "locked_system =
     accepting_system\<lparr>db_Exec := (\<lambda>db stmt. Some (New ''database is locked''))\<rparr>"

text \<open>Connected drivers of both kinds.\<close>

definition example_sqlite :: DBDriver where
  "example_sqlite =
     SQLite (snd (SQLiteDriver_Connect_guide accepting_system newSQLiteDriver
                    (NewSQLiteConfig ''data/tujifund.db'')))"

definition example_postgres :: DBDriver where
  "example_postgres =
     Postgres (snd (PostgresDriver_Connect accepting_system newPostgresDriver
                      (NewPostgresConfig ''localhost'' 5432 ''tuji'' ''secret'' ''tujifund'' ''disable'')))"

text \<open>A directory that holds the generic schema file only, with the given content.\<close>

definition example_files :: "string \<Rightarrow> files" where
  "example_files schema =
     \<lparr>os_Stat_IsNotExist = (\<lambda>p. p \<noteq> ''database/database_schema.sql''),
      os_ReadFile = (\<lambda>p. if p = ''database/database_schema.sql'' then Inr schema
                          else Inl (New (''open '' @ p @ '': no such file or directory'')))\<rparr>"

text \<open>
  A small engine. Its state is the list of the statements that took effect. A
  \<^verbatim>\<open>CREATE\<close> statement fails with an ``already exists'' error when it has taken effect
  before, an \<^verbatim>\<open>INSERT\<close> statement always takes effect, anything else is a syntax error.
\<close>

definition example_engine :: "string list engine" where
  "example_engine db stmt =
     (if HasPrefix stmt ''CREATE '' then
        (if stmt \<in> set db then (db, Some (New ''object already exists''))
         else (db @ [stmt], None))
      else if HasPrefix stmt ''INSERT '' then (db @ [stmt], None)
      else (db, Some (New ''syntax error'')))"

text \<open>
  An engine with room for one statement: on an empty database a statement takes effect,
  on any other it fails because the disk is full.
\<close>

definition full_engine :: "string list engine" where
  "full_engine db stmt =
     (if db = [] then ([stmt], None) else (db, Some (New ''database or disk is full'')))"

text \<open>A source table of three rows, as the \<^verbatim>\<open>INSERT\<close> statements that make it.\<close>

definition example_rows :: "string list" where
  "example_rows =
     [''INSERT INTO users VALUES (1)'', ''INSERT INTO users VALUES (2)'',
      ''INSERT INTO users VALUES (3)'']"

subsection \<open>Notions for the statements about schema application\<close>

text \<open>
  The result of reading the schema file that \<^verbatim>\<open>InitializeSchema\<close> selects: the file of
  the dialect, or the generic one when the first does not exist.
\<close>

definition selected_schema :: "files \<Rightarrow> DBDriver \<Rightarrow> error + string" where
  "selected_schema fs drv =
     (if os_Stat_IsNotExist fs (filepath_Join ''database'' (''schema_'' @ GetDialect drv @ ''.sql''))
      then os_ReadFile fs (filepath_Join ''database'' ''database_schema.sql'')
      else os_ReadFile fs (filepath_Join ''database'' (''schema_'' @ GetDialect drv @ ''.sql'')))"

text \<open>
  The result of a statement is benign when it is no error, or an error whose message
  contains \<^verbatim>\<open>already exists\<close>. \<open>result_at eng db stmts i\<close> is the result of statement
  \<open>i\<close> of a list when the statements before it have been executed from the state \<open>db\<close>.
\<close>

definition benign :: "error option \<Rightarrow> bool" where
  "benign r = (case r of None \<Rightarrow> True | Some err \<Rightarrow> Contains (Error err) ''already exists'')"

definition result_at :: "'db engine \<Rightarrow> 'db \<Rightarrow> string list \<Rightarrow> nat \<Rightarrow> error option" where
  "result_at eng db stmts i = snd (eng (db_after eng db (take i stmts)) (stmts ! i))"

section \<open>Placeholders\<close>

lemma Split_no_sep: "sep \<notin> set s \<Longrightarrow> Split s sep = [s]"
  by (induction s) auto

lemma TransformQuery_two_placeholders:
  "PostgresDriver_TransformQuery d ''SELECT * FROM t WHERE a=? AND b=?''
     = ''SELECT * FROM t WHERE a=$1 AND b=$2''"
  by code_simp

text \<open>
  C1: the PostgreSQL driver's \<^verbatim>\<open>TransformQuery\<close> is to number the placeholders and to leave
  a question mark inside a single-quoted literal as it is. The code splits the statement at
  every question mark: in \<^verbatim>\<open>SELECT '?' FROM t WHERE a=?\<close> the quoted question mark becomes
  \<^verbatim>\<open>$1\<close> and the placeholder \<^verbatim>\<open>$2\<close>.
\<close>

theorem TransformQuery_rewrites_quoted_question_mark:
  "PostgresDriver_TransformQuery d ''SELECT '?' FROM t WHERE a=?''
     = ''SELECT '$1' FROM t WHERE a=$2''"
  by code_simp

text \<open>
  C6: the SQLite driver's \<^verbatim>\<open>TransformQuery\<close> returns its argument, so applying it twice is
  applying it once.
\<close>

theorem SQLiteDriver_TransformQuery_identity:
  "SQLiteDriver_TransformQuery d (SQLiteDriver_TransformQuery d q) = SQLiteDriver_TransformQuery d q
   \<and> SQLiteDriver_TransformQuery d q = q"
  by (simp add: SQLiteDriver_TransformQuery_def)

text \<open>
  For every driver, the result of \<^verbatim>\<open>TransformQuery\<close> is a function of the dialect and of
  the statement alone (the pool and the configuration of the handle play no part), and a
  statement in which no question mark occurs at all is returned unchanged.
\<close>

lemma TransformQuery_pure:
  "(GetDialect drv = GetDialect drv' \<longrightarrow> TransformQuery drv q = TransformQuery drv' q)
   \<and> (CHR ''?'' \<notin> set q \<longrightarrow> TransformQuery drv q = q)"
proof (intro conjI impI)
  assume "GetDialect drv = GetDialect drv'"
  then show "TransformQuery drv q = TransformQuery drv' q"
    by (cases drv; cases drv')
       (simp_all add: SQLiteDriver_GetDialect_def PostgresDriver_GetDialect_def
          SQLiteDriver_TransformQuery_def PostgresDriver_TransformQuery_def)
next
  assume "CHR ''?'' \<notin> set q"
  then show "TransformQuery drv q = q"
    by (cases drv)
       (simp_all add: SQLiteDriver_TransformQuery_def PostgresDriver_TransformQuery_def
          Split_no_sep)
qed

text \<open>
  C7: \<^verbatim>\<open>TransformQuery\<close> is to return a statement without portable placeholders unchanged.
  A question mark inside a single-quoted literal is no placeholder, yet the PostgreSQL
  driver rewrites it: the statement \<^verbatim>\<open>SELECT '?' AS q\<close>, which has no placeholder, comes
  back changed.
\<close>

theorem TransformQuery_changes_statement_without_placeholder:
  "TransformQuery (Postgres d) ''SELECT '?' AS q'' = ''SELECT '$1' AS q''"
  by code_simp

section \<open>Connecting to SQLite\<close>

lemma open_limit_Set:
  "open_limit (SetMaxIdleConns k (SetMaxOpenConns n db)) = (if n \<le> 0 then None else Some (nat n))"
  by (simp add: open_limit_def SetMaxIdleConns_def SetMaxOpenConns_def Let_def)

lemma Connect_success_pool:
  "fst (SQLiteDriver_Connect sys d conf) = ReturnNil \<Longrightarrow>
     \<exists>db. sqlite_db (snd (SQLiteDriver_Connect sys d conf))
        = Some (SetMaxIdleConns (MaxIdleConns conf) (SetMaxOpenConns (MaxOpenConns conf) db))"
  by (auto simp add: SQLiteDriver_Connect_def Let_def split: option.splits)

lemma Connect_guide_success_pool:
  "fst (SQLiteDriver_Connect_guide sys d conf) = ReturnNil \<Longrightarrow>
     \<exists>db. sqlite_db (snd (SQLiteDriver_Connect_guide sys d conf))
        = Some (SetMaxIdleConns (MaxIdleConns conf) (SetMaxOpenConns (MaxOpenConns conf) db))"
  by (auto simp add: SQLiteDriver_Connect_guide_def Let_def split: option.splits prod.splits)

text \<open>
  C5, as stated, fails: \<^verbatim>\<open>Connect\<close> hands the configured \<^verbatim>\<open>MaxOpenConns\<close> to the pool. With
  a configuration that asks for ten connections, the pool of a successful \<^verbatim>\<open>Connect\<close>
  allows ten, in the driver of \<^verbatim>\<open>backend/database\<close> and in the guide's.
\<close>

theorem Connect_does_not_cap_counterexample:
  "fst (SQLiteDriver_Connect accepting_system newSQLiteDriver
          ((NewSQLiteConfig ''data/tujifund.db'')\<lparr>MaxOpenConns := 10\<rparr>)) = ReturnNil
   \<and> map_option open_limit
        (sqlite_db (snd (SQLiteDriver_Connect accepting_system newSQLiteDriver
          ((NewSQLiteConfig ''data/tujifund.db'')\<lparr>MaxOpenConns := 10\<rparr>)))) = Some (Some 10)
   \<and> fst (SQLiteDriver_Connect_guide pragma_system newSQLiteDriver
          ((NewSQLiteConfig ''data/tujifund.db'')\<lparr>MaxOpenConns := 10\<rparr>)) = ReturnNil
   \<and> map_option open_limit
        (sqlite_db (snd (SQLiteDriver_Connect_guide pragma_system newSQLiteDriver
          ((NewSQLiteConfig ''data/tujifund.db'')\<lparr>MaxOpenConns := 10\<rparr>)))) = Some (Some 10)"
  by (simp add: SQLiteDriver_Connect_def SQLiteDriver_Connect_guide_def accepting_system_def
      pragma_system_def Open_def OpenDB_def NewSQLiteConfig_def SetMaxOpenConns_def
      SetMaxIdleConns_def open_limit_def Let_def newSQLiteDriver_def)

text \<open>
  C5, amended: after a successful \<^verbatim>\<open>Connect\<close> the pool's limit on open connections is the
  \<^verbatim>\<open>MaxOpenConns\<close> of the configuration (no limit when that is zero or negative); the
  value is one in the configurations that \<^verbatim>\<open>NewSQLiteConfig\<close> builds.
\<close>

theorem Connect_open_limit:
  "(fst (SQLiteDriver_Connect sys d conf) = ReturnNil \<longrightarrow>
      map_option open_limit (sqlite_db (snd (SQLiteDriver_Connect sys d conf)))
        = Some (if MaxOpenConns conf \<le> 0 then None else Some (nat (MaxOpenConns conf))))
   \<and> (fst (SQLiteDriver_Connect_guide sys d conf) = ReturnNil \<longrightarrow>
      map_option open_limit (sqlite_db (snd (SQLiteDriver_Connect_guide sys d conf)))
        = Some (if MaxOpenConns conf \<le> 0 then None else Some (nat (MaxOpenConns conf))))
   \<and> MaxOpenConns (NewSQLiteConfig path) = 1"
proof (intro conjI impI)
  assume "fst (SQLiteDriver_Connect sys d conf) = ReturnNil"
  from Connect_success_pool [OF this] obtain db where
    "sqlite_db (snd (SQLiteDriver_Connect sys d conf))
        = Some (SetMaxIdleConns (MaxIdleConns conf) (SetMaxOpenConns (MaxOpenConns conf) db))" ..
  then show "map_option open_limit (sqlite_db (snd (SQLiteDriver_Connect sys d conf)))
        = Some (if MaxOpenConns conf \<le> 0 then None else Some (nat (MaxOpenConns conf)))"
    by (simp only: option.map open_limit_Set)
next
  assume "fst (SQLiteDriver_Connect_guide sys d conf) = ReturnNil"
  from Connect_guide_success_pool [OF this] obtain db where
    "sqlite_db (snd (SQLiteDriver_Connect_guide sys d conf))
        = Some (SetMaxIdleConns (MaxIdleConns conf) (SetMaxOpenConns (MaxOpenConns conf) db))" ..
  then show "map_option open_limit (sqlite_db (snd (SQLiteDriver_Connect_guide sys d conf)))
        = Some (if MaxOpenConns conf \<le> 0 then None else Some (nat (MaxOpenConns conf)))"
    by (simp only: option.map open_limit_Set)
next
  show "MaxOpenConns (NewSQLiteConfig path) = 1" by (simp add: NewSQLiteConfig_def)
qed

text \<open>The theorem at the default configuration, in a system where every call succeeds.\<close>

theorem Connect_open_limit_witness:
  "fst (SQLiteDriver_Connect accepting_system newSQLiteDriver
          (NewSQLiteConfig ''data/tujifund.db'')) = ReturnNil
   \<and> map_option open_limit
        (sqlite_db (snd (SQLiteDriver_Connect accepting_system newSQLiteDriver
          (NewSQLiteConfig ''data/tujifund.db'')))) = Some (Some 1)
   \<and> fst (SQLiteDriver_Connect_guide accepting_system newSQLiteDriver
          (NewSQLiteConfig ''data/tujifund.db'')) = ReturnNil
   \<and> map_option open_limit
        (sqlite_db (snd (SQLiteDriver_Connect_guide accepting_system newSQLiteDriver
          (NewSQLiteConfig ''data/tujifund.db'')))) = Some (Some 1)"
proof -
  let ?conf = "NewSQLiteConfig ''data/tujifund.db''"
  have a: "fst (SQLiteDriver_Connect accepting_system newSQLiteDriver ?conf) = ReturnNil"
    by (simp add: SQLiteDriver_Connect_def accepting_system_def Open_def)
  have b: "fst (SQLiteDriver_Connect_guide accepting_system newSQLiteDriver ?conf) = ReturnNil"
    by (simp add: SQLiteDriver_Connect_guide_def accepting_system_def Open_def)
  note t = Connect_open_limit [of accepting_system newSQLiteDriver ?conf "''data/tujifund.db''"]
  from t have m: "MaxOpenConns ?conf = 1" by blast
  from t a have
    "map_option open_limit (sqlite_db (snd (SQLiteDriver_Connect accepting_system newSQLiteDriver ?conf)))
       = Some (if MaxOpenConns ?conf \<le> 0 then None else Some (nat (MaxOpenConns ?conf)))"
    by blast
  then have c:
    "map_option open_limit (sqlite_db (snd (SQLiteDriver_Connect accepting_system newSQLiteDriver ?conf)))
       = Some (Some 1)"
    unfolding m by simp
  from t b have
    "map_option open_limit (sqlite_db (snd (SQLiteDriver_Connect_guide accepting_system newSQLiteDriver ?conf)))
       = Some (if MaxOpenConns ?conf \<le> 0 then None else Some (nat (MaxOpenConns ?conf)))"
    by blast
  then have e:
    "map_option open_limit (sqlite_db (snd (SQLiteDriver_Connect_guide accepting_system newSQLiteDriver ?conf)))
       = Some (Some 1)"
    unfolding m by simp
  from a c b e show ?thesis by blast
qed

text \<open>
  Both versions of \<^verbatim>\<open>Connect\<close>, as one case distinction over what the environment
  answers.
\<close>

lemma Connect_cases:
  "SQLiteDriver_Connect sys d conf =
     (case os_MkdirAll_Dir sys (SQLitePath conf) of
        Some err \<Rightarrow> (ReturnErr (Errorf ''failed to create database directory: '' err), d)
      | None \<Rightarrow>
         (case sql_Open sys ''sqlite''
                 (''file:'' @ SQLitePath conf @ ''?cache=shared&_journal_mode=WAL'') of
            Some err \<Rightarrow> (Panic, d)
          | None \<Rightarrow>
             (case db_Ping sys (OpenDB ''sqlite''
                     (''file:'' @ SQLitePath conf @ ''?cache=shared&_journal_mode=WAL'')) of
                Some err \<Rightarrow> (ReturnErr (Errorf ''failed to ping the SQLite database: '' err), d)
              | None \<Rightarrow>
                 (case db_Exec sys (OpenDB ''sqlite''
                         (''file:'' @ SQLitePath conf @ ''?cache=shared&_journal_mode=WAL''))
                         ''PRAGMA foreign_keys = ON:'' of
                    Some err \<Rightarrow> (ReturnErr (Errorf ''failed to enable foreign keys: '' err), d)
                  | None \<Rightarrow>
                     (ReturnNil,
                      d\<lparr>sqlite_db := Some (SetMaxIdleConns (MaxIdleConns conf)
                            (SetMaxOpenConns (MaxOpenConns conf)
                               (OpenDB ''sqlite''
                                  (''file:'' @ SQLitePath conf @ ''?cache=shared&_journal_mode=WAL'')))),
                        sqlite_conf := conf\<rparr>)))))"
  by (simp add: SQLiteDriver_Connect_def Open_def Let_def split: option.splits)

lemma Connect_guide_cases:
  "SQLiteDriver_Connect_guide sys d conf =
     (case os_MkdirAll_Dir sys (SQLitePath conf) of
        Some err \<Rightarrow> (ReturnErr (Errorf ''failed to create database directory: '' err), d)
      | None \<Rightarrow>
         (case sql_Open sys ''sqlite''
                 (''file:'' @ SQLitePath conf @ ''?cache=shared&_journal_mode=WAL'') of
            Some err \<Rightarrow> (ReturnErr (Errorf ''failed to connect to SQLite database: '' err), d)
          | None \<Rightarrow>
             (case db_Ping sys (OpenDB ''sqlite''
                     (''file:'' @ SQLitePath conf @ ''?cache=shared&_journal_mode=WAL'')) of
                Some err \<Rightarrow> (ReturnErr (Errorf ''failed to ping SQLite database: '' err), d)
              | None \<Rightarrow>
                 (case db_Exec sys (OpenDB ''sqlite''
                         (''file:'' @ SQLitePath conf @ ''?cache=shared&_journal_mode=WAL''))
                         ''PRAGMA foreign_keys = ON;'' of
                    Some err \<Rightarrow> (ReturnErr (Errorf ''failed to enable foreign keys: '' err), d)
                  | None \<Rightarrow>
                     (ReturnNil,
                      d\<lparr>sqlite_db := Some (SetMaxIdleConns (MaxIdleConns conf)
                            (SetMaxOpenConns (MaxOpenConns conf)
                               (OpenDB ''sqlite''
                                  (''file:'' @ SQLitePath conf @ ''?cache=shared&_journal_mode=WAL'')))),
                        sqlite_conf := conf\<rparr>)))))"
  by (simp add: SQLiteDriver_Connect_guide_def Open_def Let_def split: option.splits)

lemma dataSourceName_Set:
  "dataSourceName (SetMaxIdleConns k (SetMaxOpenConns n db)) = dataSourceName db"
  by (simp add: SetMaxIdleConns_def SetMaxOpenConns_def Let_def)

lemma NewDriver_nil_on_failure:
  "fst (NewDriver sys conf) \<noteq> ReturnNil \<Longrightarrow> snd (NewDriver sys conf) = None"
  by (simp add: NewDriver_def split: prod.splits outcome.splits if_splits)

text \<open>
  In the driver of the package \<^verbatim>\<open>database\<close> the branch for an error of \<^verbatim>\<open>sql.Open\<close> is
  empty: were \<^verbatim>\<open>sql.Open\<close> to return an error, \<^verbatim>\<open>Connect\<close> would call \<^verbatim>\<open>Ping\<close> on the
  \<^verbatim>\<open>nil\<close> pool and panic, and the factory with it, where the guide's \<^verbatim>\<open>Connect\<close> returns
  the wrapped error.
\<close>

lemma Connect_open_failure_panics:
  "SQLiteDriver_Connect open_failing_system newSQLiteDriver (NewSQLiteConfig ''data/tujifund.db'')
     = (Panic, newSQLiteDriver)
   \<and> NewDriver open_failing_system (NewSQLiteConfig ''data/tujifund.db'') = (Panic, None)
   \<and> SQLiteDriver_Connect_guide open_failing_system newSQLiteDriver
        (NewSQLiteConfig ''data/tujifund.db'')
     = (ReturnErr (Errorf ''failed to connect to SQLite database: ''
                     (New ''unable to open database file'')), newSQLiteDriver)"
  by (simp add: NewDriver_def SQLiteDriver_Connect_def SQLiteDriver_Connect_guide_def
      open_failing_system_def accepting_system_def Open_def NewSQLiteConfig_def)

text \<open>
  C8: whenever \<^verbatim>\<open>Connect\<close> fails it returns an error that wraps the cause and leaves the
  handle as it was. \<^verbatim>\<open>sql.Open\<close> returns an error only for a driver name that is not
  registered or from the driver's \<^verbatim>\<open>OpenConnector\<close>; the file registers the name
  \<^verbatim>\<open>sqlite\<close> by its own import, and a database that cannot be opened shows at the ping.
  So, for the driver of the package \<^verbatim>\<open>database\<close>, whenever \<^verbatim>\<open>sql.Open\<close> returns no
  error: \<^verbatim>\<open>Connect\<close> does not panic; a failure to create the directory and a failure of
  the ping are returned wrapped; every failure leaves the handle unchanged; and a success
  leaves a pool in the handle. The factory returns no driver unless \<^verbatim>\<open>Connect\<close> succeeded.
  The guide's \<^verbatim>\<open>Connect\<close> does the same, whatever \<^verbatim>\<open>sql.Open\<close> returns.
\<close>

theorem Connect_failure_wrapped:
  "(sql_Open sys ''sqlite'' (''file:'' @ SQLitePath conf @ ''?cache=shared&_journal_mode=WAL'') = None \<longrightarrow>
      fst (SQLiteDriver_Connect sys d conf) \<noteq> Panic
      \<and> (fst (SQLiteDriver_Connect sys d conf) \<noteq> ReturnNil \<longrightarrow>
            snd (SQLiteDriver_Connect sys d conf) = d
            \<and> (\<exists>pre cause. fst (SQLiteDriver_Connect sys d conf) = ReturnErr (Errorf pre cause)))
      \<and> (\<forall>err. os_MkdirAll_Dir sys (SQLitePath conf) = None
                 \<and> db_Ping sys (OpenDB ''sqlite''
                       (''file:'' @ SQLitePath conf @ ''?cache=shared&_journal_mode=WAL'')) = Some err \<longrightarrow>
            SQLiteDriver_Connect sys d conf
              = (ReturnErr (Errorf ''failed to ping the SQLite database: '' err), d)))
   \<and> (\<forall>err. os_MkdirAll_Dir sys (SQLitePath conf) = Some err \<longrightarrow>
         SQLiteDriver_Connect sys d conf
           = (ReturnErr (Errorf ''failed to create database directory: '' err), d))
   \<and> (fst (SQLiteDriver_Connect sys d conf) = ReturnNil \<longrightarrow>
         sqlite_db (snd (SQLiteDriver_Connect sys d conf)) \<noteq> None)
   \<and> (fst (NewDriver sys conf) \<noteq> ReturnNil \<longrightarrow> snd (NewDriver sys conf) = None)
   \<and> (fst (SQLiteDriver_Connect_guide sys d conf) \<noteq> ReturnNil \<longrightarrow>
         snd (SQLiteDriver_Connect_guide sys d conf) = d
         \<and> (\<exists>pre cause. fst (SQLiteDriver_Connect_guide sys d conf) = ReturnErr (Errorf pre cause)))"
proof (intro conjI)
  show "sql_Open sys ''sqlite'' (''file:'' @ SQLitePath conf @ ''?cache=shared&_journal_mode=WAL'') = None \<longrightarrow>
      fst (SQLiteDriver_Connect sys d conf) \<noteq> Panic
      \<and> (fst (SQLiteDriver_Connect sys d conf) \<noteq> ReturnNil \<longrightarrow>
            snd (SQLiteDriver_Connect sys d conf) = d
            \<and> (\<exists>pre cause. fst (SQLiteDriver_Connect sys d conf) = ReturnErr (Errorf pre cause)))
      \<and> (\<forall>err. os_MkdirAll_Dir sys (SQLitePath conf) = None
                 \<and> db_Ping sys (OpenDB ''sqlite''
                       (''file:'' @ SQLitePath conf @ ''?cache=shared&_journal_mode=WAL'')) = Some err \<longrightarrow>
            SQLiteDriver_Connect sys d conf
              = (ReturnErr (Errorf ''failed to ping the SQLite database: '' err), d))"
    unfolding Connect_cases by (simp split: option.splits)
  show "\<forall>err. os_MkdirAll_Dir sys (SQLitePath conf) = Some err \<longrightarrow>
         SQLiteDriver_Connect sys d conf
           = (ReturnErr (Errorf ''failed to create database directory: '' err), d)"
    unfolding Connect_cases by simp
  show "fst (SQLiteDriver_Connect sys d conf) = ReturnNil \<longrightarrow>
         sqlite_db (snd (SQLiteDriver_Connect sys d conf)) \<noteq> None"
    unfolding Connect_cases by (simp split: option.splits)
  show "fst (NewDriver sys conf) \<noteq> ReturnNil \<longrightarrow> snd (NewDriver sys conf) = None"
    using NewDriver_nil_on_failure by (rule impI)
  show "fst (SQLiteDriver_Connect_guide sys d conf) \<noteq> ReturnNil \<longrightarrow>
         snd (SQLiteDriver_Connect_guide sys d conf) = d
         \<and> (\<exists>pre cause. fst (SQLiteDriver_Connect_guide sys d conf) = ReturnErr (Errorf pre cause))"
    unfolding Connect_guide_cases by (simp split: option.splits)
qed

text \<open>
  The theorem at the default configuration and a fresh handle, in a system where the
  database does not answer the ping and in one where the directory cannot be created.
\<close>

theorem Connect_failure_wrapped_witness:
  "sql_Open ping_failing_system ''sqlite''
      (''file:'' @ SQLitePath (NewSQLiteConfig ''data/tujifund.db'')
         @ ''?cache=shared&_journal_mode=WAL'') = None
   \<and> SQLiteDriver_Connect ping_failing_system newSQLiteDriver (NewSQLiteConfig ''data/tujifund.db'')
       = (ReturnErr (Errorf ''failed to ping the SQLite database: ''
            (New ''unable to open database file'')), newSQLiteDriver)
   \<and> NewDriver ping_failing_system (NewSQLiteConfig ''data/tujifund.db'')
       = (ReturnErr (Errorf ''failed to ping the SQLite database: ''
            (New ''unable to open database file'')), None)
   \<and> SQLiteDriver_Connect mkdir_failing_system newSQLiteDriver (NewSQLiteConfig ''data/tujifund.db'')
       = (ReturnErr (Errorf ''failed to create database directory: ''
            (New ''mkdir data: permission denied'')), newSQLiteDriver)
   \<and> sqlite_db (snd (SQLiteDriver_Connect accepting_system newSQLiteDriver
         (NewSQLiteConfig ''data/tujifund.db''))) \<noteq> None
   \<and> SQLiteDriver_Connect_guide ping_failing_system newSQLiteDriver
         (NewSQLiteConfig ''data/tujifund.db'')
       = (ReturnErr (Errorf ''failed to ping SQLite database: ''
            (New ''unable to open database file'')), newSQLiteDriver)"
proof -
  let ?conf = "NewSQLiteConfig ''data/tujifund.db''"
  let ?dsn = "''file:'' @ SQLitePath ?conf @ ''?cache=shared&_journal_mode=WAL''"
  have o: "sql_Open ping_failing_system ''sqlite'' ?dsn = None"
    by (simp add: ping_failing_system_def accepting_system_def)
  have m: "os_MkdirAll_Dir ping_failing_system (SQLitePath ?conf) = None
      \<and> db_Ping ping_failing_system (OpenDB ''sqlite'' ?dsn) = Some (New ''unable to open database file'')"
    by (simp add: ping_failing_system_def accepting_system_def)
  have k: "os_MkdirAll_Dir mkdir_failing_system (SQLitePath ?conf)
      = Some (New ''mkdir data: permission denied'')"
    by (simp add: mkdir_failing_system_def accepting_system_def)
  have a: "fst (SQLiteDriver_Connect accepting_system newSQLiteDriver ?conf) = ReturnNil"
    by (simp add: SQLiteDriver_Connect_def accepting_system_def Open_def)
  have g: "SQLiteDriver_Connect_guide ping_failing_system newSQLiteDriver ?conf
       = (ReturnErr (Errorf ''failed to ping SQLite database: ''
            (New ''unable to open database file'')), newSQLiteDriver)"
    by (simp add: SQLiteDriver_Connect_guide_def ping_failing_system_def accepting_system_def
        Open_def)
  have n: "NewDriver ping_failing_system ?conf
       = (ReturnErr (Errorf ''failed to ping the SQLite database: ''
            (New ''unable to open database file'')), None)"
    by (simp add: NewDriver_def SQLiteDriver_Connect_def ping_failing_system_def
        accepting_system_def Open_def NewSQLiteConfig_def)
  note p = Connect_failure_wrapped [of ping_failing_system ?conf newSQLiteDriver]
  note q = Connect_failure_wrapped [of mkdir_failing_system ?conf newSQLiteDriver]
  note r = Connect_failure_wrapped [of accepting_system ?conf newSQLiteDriver]
  from p o m have 1: "SQLiteDriver_Connect ping_failing_system newSQLiteDriver ?conf
       = (ReturnErr (Errorf ''failed to ping the SQLite database: ''
            (New ''unable to open database file'')), newSQLiteDriver)"
    by blast
  from q k have 2: "SQLiteDriver_Connect mkdir_failing_system newSQLiteDriver ?conf
       = (ReturnErr (Errorf ''failed to create database directory: ''
            (New ''mkdir data: permission denied'')), newSQLiteDriver)"
    by blast
  from r a have 3: "sqlite_db (snd (SQLiteDriver_Connect accepting_system newSQLiteDriver ?conf)) \<noteq> None"
    by blast
  from o 1 n 2 3 g show ?thesis by (intro conjI)
qed

lemma Connect_pragma_misspelt:
  "fst (SQLiteDriver_Connect pragma_system newSQLiteDriver (NewSQLiteConfig ''data/tujifund.db''))
     = ReturnErr (Errorf ''failed to enable foreign keys: ''
                    (New ''SQL logic error: unrecognized token''))
   \<and> fst (SQLiteDriver_Connect_guide pragma_system newSQLiteDriver
            (NewSQLiteConfig ''data/tujifund.db''))
     = ReturnNil"
  by (simp add: SQLiteDriver_Connect_def SQLiteDriver_Connect_guide_def pragma_system_def
      accepting_system_def Open_def NewSQLiteConfig_def)

text \<open>
  C9: a successful \<^verbatim>\<open>Connect\<close> has opened the pool with a data source name that asks for
  write-ahead journaling, and has executed its foreign-key statement on that pool without
  an error; when that statement fails, \<^verbatim>\<open>Connect\<close> returns an error. This holds of the
  guide's \<^verbatim>\<open>Connect\<close>, whose statement is \<^verbatim>\<open>PRAGMA foreign_keys = ON;\<close>, and of the driver
  of the package \<^verbatim>\<open>database\<close>, which writes the statement with a colon at its end,
  \<^verbatim>\<open>PRAGMA foreign_keys = ON:\<close>: with an engine that rejects that text its \<^verbatim>\<open>Connect\<close>
  never succeeds (lemma \<open>Connect_pragma_misspelt\<close>).
\<close>

theorem Connect_success_wal_foreign_keys:
  "(fst (SQLiteDriver_Connect_guide sys d conf) = ReturnNil \<longrightarrow>
      map_option dataSourceName (sqlite_db (snd (SQLiteDriver_Connect_guide sys d conf)))
        = Some (''file:'' @ SQLitePath conf @ ''?cache=shared&_journal_mode=WAL'')
      \<and> db_Exec sys (OpenDB ''sqlite''
             (''file:'' @ SQLitePath conf @ ''?cache=shared&_journal_mode=WAL''))
           ''PRAGMA foreign_keys = ON;'' = None)
   \<and> (\<forall>err. db_Exec sys (OpenDB ''sqlite''
                  (''file:'' @ SQLitePath conf @ ''?cache=shared&_journal_mode=WAL''))
                ''PRAGMA foreign_keys = ON;'' = Some err \<longrightarrow>
         (\<exists>e. fst (SQLiteDriver_Connect_guide sys d conf) = ReturnErr e))
   \<and> (fst (SQLiteDriver_Connect sys d conf) = ReturnNil \<longrightarrow>
      map_option dataSourceName (sqlite_db (snd (SQLiteDriver_Connect sys d conf)))
        = Some (''file:'' @ SQLitePath conf @ ''?cache=shared&_journal_mode=WAL'')
      \<and> db_Exec sys (OpenDB ''sqlite''
             (''file:'' @ SQLitePath conf @ ''?cache=shared&_journal_mode=WAL''))
           ''PRAGMA foreign_keys = ON:'' = None)
   \<and> (\<forall>err. sql_Open sys ''sqlite''
                  (''file:'' @ SQLitePath conf @ ''?cache=shared&_journal_mode=WAL'') = None
              \<and> db_Exec sys (OpenDB ''sqlite''
                  (''file:'' @ SQLitePath conf @ ''?cache=shared&_journal_mode=WAL''))
                ''PRAGMA foreign_keys = ON:'' = Some err \<longrightarrow>
         (\<exists>e. fst (SQLiteDriver_Connect sys d conf) = ReturnErr e))"
proof (intro conjI)
  show "fst (SQLiteDriver_Connect_guide sys d conf) = ReturnNil \<longrightarrow>
      map_option dataSourceName (sqlite_db (snd (SQLiteDriver_Connect_guide sys d conf)))
        = Some (''file:'' @ SQLitePath conf @ ''?cache=shared&_journal_mode=WAL'')
      \<and> db_Exec sys (OpenDB ''sqlite''
             (''file:'' @ SQLitePath conf @ ''?cache=shared&_journal_mode=WAL''))
           ''PRAGMA foreign_keys = ON;'' = None"
    unfolding Connect_guide_cases
    by (simp add: dataSourceName_Set OpenDB_def split: option.splits)
  show "\<forall>err. db_Exec sys (OpenDB ''sqlite''
                  (''file:'' @ SQLitePath conf @ ''?cache=shared&_journal_mode=WAL''))
                ''PRAGMA foreign_keys = ON;'' = Some err \<longrightarrow>
         (\<exists>e. fst (SQLiteDriver_Connect_guide sys d conf) = ReturnErr e)"
    unfolding Connect_guide_cases by (simp split: option.splits)
  show "fst (SQLiteDriver_Connect sys d conf) = ReturnNil \<longrightarrow>
      map_option dataSourceName (sqlite_db (snd (SQLiteDriver_Connect sys d conf)))
        = Some (''file:'' @ SQLitePath conf @ ''?cache=shared&_journal_mode=WAL'')
      \<and> db_Exec sys (OpenDB ''sqlite''
             (''file:'' @ SQLitePath conf @ ''?cache=shared&_journal_mode=WAL''))
           ''PRAGMA foreign_keys = ON:'' = None"
    unfolding Connect_cases
    by (simp add: dataSourceName_Set OpenDB_def split: option.splits)
  show "\<forall>err. sql_Open sys ''sqlite''
                  (''file:'' @ SQLitePath conf @ ''?cache=shared&_journal_mode=WAL'') = None
              \<and> db_Exec sys (OpenDB ''sqlite''
                  (''file:'' @ SQLitePath conf @ ''?cache=shared&_journal_mode=WAL''))
                ''PRAGMA foreign_keys = ON:'' = Some err \<longrightarrow>
         (\<exists>e. fst (SQLiteDriver_Connect sys d conf) = ReturnErr e)"
    unfolding Connect_cases by (simp split: option.splits)
qed

text \<open>
  The theorem at the default configuration: the guide's \<^verbatim>\<open>Connect\<close> succeeds with the
  engine that takes the pragma and nothing else, and returns an error with an engine on
  which the pragma fails; the driver's \<^verbatim>\<open>Connect\<close> succeeds with an engine that takes
  every statement, and returns an error with the engine that takes the pragma only.
\<close>

theorem Connect_success_wal_foreign_keys_witness:
  "fst (SQLiteDriver_Connect_guide pragma_system newSQLiteDriver
          (NewSQLiteConfig ''data/tujifund.db'')) = ReturnNil
   \<and> map_option dataSourceName
        (sqlite_db (snd (SQLiteDriver_Connect_guide pragma_system newSQLiteDriver
           (NewSQLiteConfig ''data/tujifund.db''))))
       = Some ''file:data/tujifund.db?cache=shared&_journal_mode=WAL''
   \<and> db_Exec pragma_system
        (OpenDB ''sqlite'' ''file:data/tujifund.db?cache=shared&_journal_mode=WAL'')
        ''PRAGMA foreign_keys = ON;'' = None
   \<and> fst (SQLiteDriver_Connect accepting_system newSQLiteDriver
          (NewSQLiteConfig ''data/tujifund.db'')) = ReturnNil
   \<and> map_option dataSourceName
        (sqlite_db (snd (SQLiteDriver_Connect accepting_system newSQLiteDriver
           (NewSQLiteConfig ''data/tujifund.db''))))
       = Some ''file:data/tujifund.db?cache=shared&_journal_mode=WAL''
   \<and> (\<exists>e. fst (SQLiteDriver_Connect pragma_system newSQLiteDriver
          (NewSQLiteConfig ''data/tujifund.db'')) = ReturnErr e)
   \<and> (\<exists>e. fst (SQLiteDriver_Connect_guide locked_system newSQLiteDriver
          (NewSQLiteConfig ''data/tujifund.db'')) = ReturnErr e)"
proof -
  let ?conf = "NewSQLiteConfig ''data/tujifund.db''"
  have dsn: "''file:'' @ SQLitePath ?conf @ ''?cache=shared&_journal_mode=WAL''
      = ''file:data/tujifund.db?cache=shared&_journal_mode=WAL''"
    by (simp add: NewSQLiteConfig_def)
  have g: "fst (SQLiteDriver_Connect_guide pragma_system newSQLiteDriver ?conf) = ReturnNil"
    by (simp add: SQLiteDriver_Connect_guide_def pragma_system_def accepting_system_def Open_def)
  have a: "fst (SQLiteDriver_Connect accepting_system newSQLiteDriver ?conf) = ReturnNil"
    by (simp add: SQLiteDriver_Connect_def accepting_system_def Open_def)
  have o: "sql_Open pragma_system ''sqlite''
        (''file:'' @ SQLitePath ?conf @ ''?cache=shared&_journal_mode=WAL'') = None
      \<and> db_Exec pragma_system (OpenDB ''sqlite''
          (''file:'' @ SQLitePath ?conf @ ''?cache=shared&_journal_mode=WAL''))
          ''PRAGMA foreign_keys = ON:'' = Some (New ''SQL logic error: unrecognized token'')"
    by (simp add: pragma_system_def accepting_system_def)
  have l: "db_Exec locked_system (OpenDB ''sqlite''
          (''file:'' @ SQLitePath ?conf @ ''?cache=shared&_journal_mode=WAL''))
          ''PRAGMA foreign_keys = ON;'' = Some (New ''database is locked'')"
    by (simp add: locked_system_def accepting_system_def)
  note p = Connect_success_wal_foreign_keys [of pragma_system newSQLiteDriver ?conf]
  note q = Connect_success_wal_foreign_keys [of accepting_system newSQLiteDriver ?conf]
  note r = Connect_success_wal_foreign_keys [of locked_system newSQLiteDriver ?conf]
  from p g have 1: "map_option dataSourceName
        (sqlite_db (snd (SQLiteDriver_Connect_guide pragma_system newSQLiteDriver ?conf)))
        = Some (''file:'' @ SQLitePath ?conf @ ''?cache=shared&_journal_mode=WAL'')"
    and 2: "db_Exec pragma_system (OpenDB ''sqlite''
             (''file:'' @ SQLitePath ?conf @ ''?cache=shared&_journal_mode=WAL''))
           ''PRAGMA foreign_keys = ON;'' = None"
    by blast+
  from q a have 3: "map_option dataSourceName
        (sqlite_db (snd (SQLiteDriver_Connect accepting_system newSQLiteDriver ?conf)))
        = Some (''file:'' @ SQLitePath ?conf @ ''?cache=shared&_journal_mode=WAL'')"
    by blast
  from p o have 4: "\<exists>e. fst (SQLiteDriver_Connect pragma_system newSQLiteDriver ?conf) = ReturnErr e"
    by blast
  from r l have 5: "\<exists>e. fst (SQLiteDriver_Connect_guide locked_system newSQLiteDriver ?conf) = ReturnErr e"
    by blast
  from g 1 2 a 3 4 5 show ?thesis unfolding dsn by (intro conjI)
qed

section \<open>Schema application\<close>

lemma sent_Nil: "sent drv [] = []"
  by (simp add: sent_def)

lemma sent_blank: "TrimSpace s = [] \<Longrightarrow> sent drv (s # ss) = sent drv ss"
  by (simp add: sent_def)

lemma sent_stmt:
  "TrimSpace s \<noteq> [] \<Longrightarrow> sent drv (s # ss) = TransformQuery drv (TrimSpace s) # sent drv ss"
  by (simp add: sent_def)

lemma db_after_Nil: "db_after eng db [] = db"
  by (simp add: db_after_def)

lemma db_after_Cons: "db_after eng db (x # xs) = db_after eng (fst (eng db x)) xs"
  by (simp add: db_after_def)

lemma db_after_snoc: "db_after eng db (xs @ [x]) = fst (eng (db_after eng db xs) x)"
  by (simp add: db_after_def)

lemma result_at_0: "result_at eng db (x # xs) 0 = snd (eng db x)"
  by (simp add: result_at_def db_after_Nil)

lemma result_at_Suc: "result_at eng db (x # xs) (Suc i) = result_at eng (fst (eng db x)) xs i"
  by (simp add: result_at_def db_after_Cons)

lemma Exec_connected: "driver_db drv = Some pool \<Longrightarrow> Exec eng drv db q = Some (eng db q)"
  by (simp add: Exec_def)

text \<open>One turn of the loop: a blank piece, a statement with a benign result, any other.\<close>

lemma loop_blank:
  "TrimSpace s = [] \<Longrightarrow>
     InitializeSchema_loop eng drv (s # ss) db log = InitializeSchema_loop eng drv ss db log"
  by simp

lemma loop_benign_step:
  assumes "driver_db drv = Some pool" and "TrimSpace s \<noteq> []"
    and "benign (snd (eng db (TransformQuery drv (TrimSpace s))))"
  shows "InitializeSchema_loop eng drv (s # ss) db log =
     InitializeSchema_loop eng drv ss (fst (eng db (TransformQuery drv (TrimSpace s))))
       (log @ [TransformQuery drv (TrimSpace s)])"
  using assms
  by (cases "eng db (TransformQuery drv (TrimSpace s))")
     (simp add: Exec_connected benign_def Let_def split: option.splits)

lemma loop_abort_step:
  assumes "driver_db drv = Some pool" and "TrimSpace s \<noteq> []"
    and "\<not> benign (snd (eng db (TransformQuery drv (TrimSpace s))))"
  shows "InitializeSchema_loop eng drv (s # ss) db log =
     (ReturnErr (Errorf ''failed to execute schema statement: ''
         (the (snd (eng db (TransformQuery drv (TrimSpace s)))))),
      fst (eng db (TransformQuery drv (TrimSpace s))),
      log @ [TransformQuery drv (TrimSpace s)])"
  using assms
  by (cases "eng db (TransformQuery drv (TrimSpace s))")
     (simp add: Exec_connected benign_def Let_def split: option.splits)

text \<open>When every result is benign the loop runs to its end, over every statement.\<close>

lemma loop_all_benign:
  assumes "driver_db drv = Some pool"
    and "\<forall>i < length (sent drv ss). benign (result_at eng db (sent drv ss) i)"
  shows "InitializeSchema_loop eng drv ss db log =
     (ReturnNil, db_after eng db (sent drv ss), log @ sent drv ss)"
  using assms(2)
proof (induction ss arbitrary: db log)
  case Nil
  show ?case by (simp add: sent_Nil db_after_Nil)
next
  case (Cons s ss)
  show ?case
  proof (cases "TrimSpace s = []")
    case True
    with Cons show ?thesis by (simp only: loop_blank sent_blank)
  next
    case False
    let ?x = "TransformQuery drv (TrimSpace s)"
    have t: "sent drv (s # ss) = ?x # sent drv ss" using False by (rule sent_stmt)
    from Cons.prems have b0: "benign (snd (eng db ?x))"
      unfolding t by (metis length_greater_0_conv list.distinct(1) result_at_0)
    have rest: "\<forall>i < length (sent drv ss). benign (result_at eng (fst (eng db ?x)) (sent drv ss) i)"
    proof (intro allI impI)
      fix i assume "i < length (sent drv ss)"
      then have "Suc i < length (sent drv (s # ss))" unfolding t by simp
      with Cons.prems have "benign (result_at eng db (sent drv (s # ss)) (Suc i))" by blast
      then show "benign (result_at eng (fst (eng db ?x)) (sent drv ss) i)"
        unfolding t by (simp only: result_at_Suc)
    qed
    show ?thesis
      unfolding loop_benign_step [where eng=eng and db=db, OF assms(1) False b0]
        Cons.IH [OF rest] t
      by (simp add: db_after_Cons)
  qed
qed

text \<open>
  The loop stops at the first statement whose result is not benign: the statements up to
  it have been executed, none after it.
\<close>

lemma loop_first_failure:
  assumes "driver_db drv = Some pool"
    and "i < length (sent drv ss)"
    and "\<not> benign (result_at eng db (sent drv ss) i)"
    and "\<forall>j < i. benign (result_at eng db (sent drv ss) j)"
  shows "InitializeSchema_loop eng drv ss db log =
     (ReturnErr (Errorf ''failed to execute schema statement: ''
         (the (result_at eng db (sent drv ss) i))),
      db_after eng db (take (Suc i) (sent drv ss)), log @ take (Suc i) (sent drv ss))"
  using assms(2-4)
proof (induction ss arbitrary: i db log)
  case Nil
  then show ?case by (simp add: sent_Nil)
next
  case (Cons s ss)
  show ?case
  proof (cases "TrimSpace s = []")
    case True
    with Cons show ?thesis by (simp only: loop_blank sent_blank)
  next
    case False
    let ?x = "TransformQuery drv (TrimSpace s)"
    have t: "sent drv (s # ss) = ?x # sent drv ss" using False by (rule sent_stmt)
    show ?thesis
    proof (cases i)
      case 0
      have "\<not> benign (snd (eng db ?x))"
        using Cons.prems(2) unfolding t 0 result_at_0 .
      then have step: "InitializeSchema_loop eng drv (s # ss) db log =
          (ReturnErr (Errorf ''failed to execute schema statement: '' (the (snd (eng db ?x)))),
           fst (eng db ?x), log @ [?x])"
        by (rule loop_abort_step [where eng=eng and db=db, OF assms(1) False])
      show ?thesis
        unfolding t 0
        by (simp only: step result_at_0 take_Suc_Cons take_0 db_after_Cons db_after_Nil)
    next
      case (Suc k)
      from Cons.prems(3) Suc have "benign (result_at eng db (sent drv (s # ss)) 0)" by blast
      then have b0: "benign (snd (eng db ?x))" unfolding t by (simp only: result_at_0)
      have k: "k < length (sent drv ss)" using Cons.prems(1) unfolding t Suc by simp
      have nb: "\<not> benign (result_at eng (fst (eng db ?x)) (sent drv ss) k)"
        using Cons.prems(2) unfolding t Suc result_at_Suc .
      have before: "\<forall>j < k. benign (result_at eng (fst (eng db ?x)) (sent drv ss) j)"
      proof (intro allI impI)
        fix j assume "j < k"
        then have "Suc j < i" using Suc by simp
        with Cons.prems(3) have "benign (result_at eng db (sent drv (s # ss)) (Suc j))" by blast
        then show "benign (result_at eng (fst (eng db ?x)) (sent drv ss) j)"
          unfolding t by (simp only: result_at_Suc)
      qed
      show ?thesis
        unfolding loop_benign_step [where eng=eng and db=db, OF assms(1) False b0]
          Cons.IH [OF k nb before] t Suc
        by (simp add: db_after_Cons result_at_Suc)
    qed
  qed
qed

lemma InitializeSchema_selected:
  "SchemaManager_InitializeSchema fs eng sm db =
     (case selected_schema fs (driver sm) of
        Inl err \<Rightarrow> (ReturnErr (Errorf ''failed to read schema file: '' err), db, [])
      | Inr schema \<Rightarrow> InitializeSchema_loop eng (driver sm) (Split schema (CHR '';'')) db [])"
  by (simp add: SchemaManager_InitializeSchema_def selected_schema_def Let_def)

text \<open>The two lemmas about the loop, for the whole of \<^verbatim>\<open>InitializeSchema\<close>.\<close>

lemma InitializeSchema_all_benign:
  assumes "driver_db (driver sm) = Some pool"
    and "selected_schema fs (driver sm) = Inr schema"
    and "\<forall>i < length (schema_statements (driver sm) schema).
           benign (result_at eng db (schema_statements (driver sm) schema) i)"
  shows "SchemaManager_InitializeSchema fs eng sm db
           = (ReturnNil, db_after eng db (schema_statements (driver sm) schema),
              schema_statements (driver sm) schema)"
  using loop_all_benign [where eng=eng and db=db and log="[]", OF assms(1)] assms(3)
  unfolding schema_statements_def InitializeSchema_selected assms(2)
  by simp

lemma InitializeSchema_first_failure:
  assumes "driver_db (driver sm) = Some pool"
    and "selected_schema fs (driver sm) = Inr schema"
    and "i < length (schema_statements (driver sm) schema)"
    and "\<not> benign (result_at eng db (schema_statements (driver sm) schema) i)"
    and "\<forall>j < i. benign (result_at eng db (schema_statements (driver sm) schema) j)"
  shows "SchemaManager_InitializeSchema fs eng sm db
           = (ReturnErr (Errorf ''failed to execute schema statement: ''
                 (the (result_at eng db (schema_statements (driver sm) schema) i))),
              db_after eng db (take (Suc i) (schema_statements (driver sm) schema)),
              take (Suc i) (schema_statements (driver sm) schema))"
  using loop_first_failure [where eng=eng and db=db and log="[]" and i=i, OF assms(1)]
    assms(3-5)
  unfolding schema_statements_def InitializeSchema_selected assms(2)
  by simp

lemma not_benign_cause:
  "\<not> benign r \<Longrightarrow> \<exists>cause. r = Some cause \<and> \<not> Contains (Error cause) ''already exists''"
  by (cases r) (simp_all add: benign_def)

text \<open>The example driver is connected, and the example directory yields its schema.\<close>

lemma example_sqlite_connected:
  "driver_db (driver (NewSchemaManager example_sqlite)) =
     Some (SetMaxIdleConns 2 (SetMaxOpenConns 1
       (OpenDB ''sqlite'' ''file:data/tujifund.db?cache=shared&_journal_mode=WAL'')))"
  by (simp add: NewSchemaManager_def example_sqlite_def SQLiteDriver_Connect_guide_def
      accepting_system_def Open_def NewSQLiteConfig_def newSQLiteDriver_def)

lemma example_files_selected:
  "selected_schema (example_files schema) (driver (NewSchemaManager example_sqlite)) = Inr schema"
  by (simp add: selected_schema_def example_files_def filepath_Join_def example_sqlite_def
      SQLiteDriver_GetDialect_def NewSchemaManager_def)

text \<open>
  C3: the schema is to be split into statements with quoted literals respected. The code
  splits at every semicolon: a statement with a semicolon inside a literal reaches the
  engine as two pieces.
\<close>

theorem InitializeSchema_splits_inside_literal:
  "SchemaManager_InitializeSchema
     (example_files ''CREATE TABLE t (v TEXT DEFAULT 'a;b');'')
     example_engine (NewSchemaManager example_sqlite) []
   = (ReturnErr (Errorf ''failed to execute schema statement: '' (New ''syntax error'')),
      [''CREATE TABLE t (v TEXT DEFAULT 'a''],
      [''CREATE TABLE t (v TEXT DEFAULT 'a'', ''b')''])"
  by code_simp

text \<open>
  Whenever \<^verbatim>\<open>InitializeSchema\<close> returns an error, with a connected driver and a readable
  schema, that error is the engine's error for one of the statements behind the prefix.
\<close>

lemma InitializeSchema_error_cause:
  assumes "driver_db (driver sm) = Some pool"
    and "selected_schema fs (driver sm) = Inr schema"
    and "fst (SchemaManager_InitializeSchema fs eng sm db) = ReturnErr e"
  shows "\<exists>cause. e = Errorf ''failed to execute schema statement: '' cause
           \<and> (\<exists>i < length (schema_statements (driver sm) schema).
                 result_at eng db (schema_statements (driver sm) schema) i = Some cause)"
proof -
  let ?st = "schema_statements (driver sm) schema"
  define P where "P i \<longleftrightarrow> i < length ?st \<and> \<not> benign (result_at eng db ?st i)" for i
  have "\<exists>i. P i"
  proof (rule ccontr)
    assume "\<not> (\<exists>i. P i)"
    then have "\<forall>i < length ?st. benign (result_at eng db ?st i)" by (simp add: P_def)
    from InitializeSchema_all_benign [OF assms(1,2) this] assms(3) show False by simp
  qed
  then obtain i where Pi: "P i" and least: "\<forall>j < i. \<not> P j"
    using exists_least_iff [of P] by blast
  from Pi have i: "i < length ?st" and nb: "\<not> benign (result_at eng db ?st i)"
    by (simp_all add: P_def)
  from least i have before: "\<forall>j < i. benign (result_at eng db ?st j)"
    by (auto simp add: P_def)
  from not_benign_cause [OF nb] obtain cause where c: "result_at eng db ?st i = Some cause"
    by (elim exE conjE)
  from InitializeSchema_first_failure [OF assms(1,2) i nb before] assms(3)
  have "e = Errorf ''failed to execute schema statement: '' cause"
    by (simp add: c)
  with i c show ?thesis by blast
qed

text \<open>
  C4, as stated, fails: the error of a failed schema application need not carry the index
  or the text of the failing statement. With an engine that runs out of space after one
  statement, the second statement of one schema and the first statement of another fail
  with the same error.
\<close>

theorem InitializeSchema_error_counterexample:
  "SchemaManager_InitializeSchema (example_files ''CREATE TABLE a (x); CREATE TABLE b (y);'')
      full_engine (NewSchemaManager example_sqlite) []
   = (ReturnErr (Errorf ''failed to execute schema statement: '' (New ''database or disk is full'')),
      [''CREATE TABLE a (x)''], [''CREATE TABLE a (x)'', ''CREATE TABLE b (y)''])
   \<and> SchemaManager_InitializeSchema (example_files ''CREATE TABLE c (z);'')
      full_engine (NewSchemaManager example_sqlite) [''CREATE TABLE a (x)'']
   = (ReturnErr (Errorf ''failed to execute schema statement: '' (New ''database or disk is full'')),
      [''CREATE TABLE a (x)''], [''CREATE TABLE c (z)''])"
  by code_simp

text \<open>
  C4, amended: with a connected driver and a readable schema, a statement failure whose
  message contains \<^verbatim>\<open>already exists\<close> is swallowed: when every failure is of that kind,
  \<^verbatim>\<open>InitializeSchema\<close> executes every statement and returns no error, so a second call
  returns no error either when the failures it meets are of that kind. Any other failure
  aborts at once and nothing after the failing statement is executed. The error returned
  is always the engine's error for the failing statement behind the prefix
  \<^verbatim>\<open>failed to execute schema statement: \<close>: its message is the prefix followed by the
  engine's message.
\<close>

theorem InitializeSchema_already_exists_swallowed:
  assumes "driver_db (driver sm) = Some pool"
    and "selected_schema fs (driver sm) = Inr schema"
  shows
    "((\<forall>i < length (schema_statements (driver sm) schema).
         benign (result_at eng db (schema_statements (driver sm) schema) i)) \<longrightarrow>
       fst (SchemaManager_InitializeSchema fs eng sm db) = ReturnNil
       \<and> snd (snd (SchemaManager_InitializeSchema fs eng sm db))
           = schema_statements (driver sm) schema)
     \<and> ((\<forall>i < length (schema_statements (driver sm) schema).
           benign (result_at eng db (schema_statements (driver sm) schema) i))
        \<and> (\<forall>i < length (schema_statements (driver sm) schema).
             benign (result_at eng (fst (snd (SchemaManager_InitializeSchema fs eng sm db)))
                       (schema_statements (driver sm) schema) i)) \<longrightarrow>
         fst (SchemaManager_InitializeSchema fs eng sm db) = ReturnNil
         \<and> fst (SchemaManager_InitializeSchema fs eng sm
                  (fst (snd (SchemaManager_InitializeSchema fs eng sm db)))) = ReturnNil)
     \<and> (\<forall>i < length (schema_statements (driver sm) schema).
          \<not> benign (result_at eng db (schema_statements (driver sm) schema) i)
          \<and> (\<forall>j < i. benign (result_at eng db (schema_statements (driver sm) schema) j)) \<longrightarrow>
          (\<exists>cause. result_at eng db (schema_statements (driver sm) schema) i = Some cause
             \<and> \<not> Contains (Error cause) ''already exists''
             \<and> fst (SchemaManager_InitializeSchema fs eng sm db)
                 = ReturnErr (Errorf ''failed to execute schema statement: '' cause)
             \<and> snd (snd (SchemaManager_InitializeSchema fs eng sm db))
                 = take (Suc i) (schema_statements (driver sm) schema)))
     \<and> (\<forall>e. fst (SchemaManager_InitializeSchema fs eng sm db) = ReturnErr e \<longrightarrow>
          (\<exists>cause. e = Errorf ''failed to execute schema statement: '' cause
             \<and> Error e = ''failed to execute schema statement: '' @ Error cause
             \<and> (\<exists>i < length (schema_statements (driver sm) schema).
                   result_at eng db (schema_statements (driver sm) schema) i = Some cause)))"
proof -
  let ?st = "schema_statements (driver sm) schema"
  let ?run = "SchemaManager_InitializeSchema fs eng sm"
  have wrapped: "\<forall>e. fst (?run db) = ReturnErr e \<longrightarrow>
      (\<exists>cause. e = Errorf ''failed to execute schema statement: '' cause
         \<and> Error e = ''failed to execute schema statement: '' @ Error cause
         \<and> (\<exists>i < length ?st. result_at eng db ?st i = Some cause))"
  proof (intro allI impI)
    fix e
    assume "fst (?run db) = ReturnErr e"
    from InitializeSchema_error_cause [OF assms this] obtain cause
      where e: "e = Errorf ''failed to execute schema statement: '' cause"
        and i: "\<exists>i < length ?st. result_at eng db ?st i = Some cause"
      by blast
    from e have "Error e = ''failed to execute schema statement: '' @ Error cause"
      by (simp only: Error.simps)
    with e i
    show "\<exists>cause. e = Errorf ''failed to execute schema statement: '' cause
         \<and> Error e = ''failed to execute schema statement: '' @ Error cause
         \<and> (\<exists>i < length ?st. result_at eng db ?st i = Some cause)"
      by (intro exI [of _ cause] conjI)
  qed
  have all_benign: "fst (?run d) = ReturnNil \<and> snd (snd (?run d)) = ?st"
    if "\<forall>i < length ?st. benign (result_at eng d ?st i)" for d
    by (simp only: InitializeSchema_all_benign [OF assms that] fst_conv snd_conv simp_thms)
  have once: "(\<forall>i < length ?st. benign (result_at eng db ?st i)) \<longrightarrow>
      fst (?run db) = ReturnNil \<and> snd (snd (?run db)) = ?st"
    using all_benign by (rule impI)
  have twice: "(\<forall>i < length ?st. benign (result_at eng db ?st i))
        \<and> (\<forall>i < length ?st. benign (result_at eng (fst (snd (?run db))) ?st i)) \<longrightarrow>
      fst (?run db) = ReturnNil \<and> fst (?run (fst (snd (?run db)))) = ReturnNil"
  proof
    assume h: "(\<forall>i < length ?st. benign (result_at eng db ?st i))
        \<and> (\<forall>i < length ?st. benign (result_at eng (fst (snd (?run db))) ?st i))"
    from all_benign [OF conjunct1 [OF h]] have 1: "fst (?run db) = ReturnNil" ..
    from all_benign [OF conjunct2 [OF h]]
    have 2: "fst (?run (fst (snd (?run db)))) = ReturnNil" ..
    from 1 2 show "fst (?run db) = ReturnNil \<and> fst (?run (fst (snd (?run db)))) = ReturnNil" ..
  qed
  have abort: "\<forall>i < length ?st.
      \<not> benign (result_at eng db ?st i) \<and> (\<forall>j < i. benign (result_at eng db ?st j)) \<longrightarrow>
      (\<exists>cause. result_at eng db ?st i = Some cause
         \<and> \<not> Contains (Error cause) ''already exists''
         \<and> fst (?run db) = ReturnErr (Errorf ''failed to execute schema statement: '' cause)
         \<and> snd (snd (?run db)) = take (Suc i) ?st)"
  proof (intro allI impI)
    fix i
    assume i: "i < length ?st"
      and f: "\<not> benign (result_at eng db ?st i) \<and> (\<forall>j < i. benign (result_at eng db ?st j))"
    from f have nb: "\<not> benign (result_at eng db ?st i)" ..
    from f have before: "\<forall>j < i. benign (result_at eng db ?st j)" ..
    from not_benign_cause [OF nb] obtain cause
      where c: "result_at eng db ?st i = Some cause"
        and nc: "\<not> Contains (Error cause) ''already exists''"
      by (elim exE conjE)
    have r: "fst (?run db) = ReturnErr (Errorf ''failed to execute schema statement: '' cause)
        \<and> snd (snd (?run db)) = take (Suc i) ?st"
      by (simp only: InitializeSchema_first_failure [OF assms i nb before] c
            fst_conv snd_conv option.sel simp_thms)
    from c nc r
    show "\<exists>cause. result_at eng db ?st i = Some cause
         \<and> \<not> Contains (Error cause) ''already exists''
         \<and> fst (?run db) = ReturnErr (Errorf ''failed to execute schema statement: '' cause)
         \<and> snd (snd (?run db)) = take (Suc i) ?st"
      by (intro exI [of _ cause] conjI) (elim conjE, assumption)+
  qed
  from once twice abort wrapped show ?thesis by (intro conjI)
qed

text \<open>
  The theorem at a schema of two \<^verbatim>\<open>CREATE\<close> statements, applied twice from the empty
  database (the second call meets two ``already exists'' errors), and at a schema whose
  second statement is a syntax error, with the message of the error returned.
\<close>

theorem InitializeSchema_already_exists_swallowed_witness:
  "fst (SchemaManager_InitializeSchema (example_files ''CREATE TABLE a (x); CREATE TABLE b (y);'')
          example_engine (NewSchemaManager example_sqlite) []) = ReturnNil
   \<and> fst (SchemaManager_InitializeSchema (example_files ''CREATE TABLE a (x); CREATE TABLE b (y);'')
          example_engine (NewSchemaManager example_sqlite)
          (fst (snd (SchemaManager_InitializeSchema
             (example_files ''CREATE TABLE a (x); CREATE TABLE b (y);'')
             example_engine (NewSchemaManager example_sqlite) [])))) = ReturnNil
   \<and> result_at example_engine []
        (schema_statements (driver (NewSchemaManager example_sqlite))
           ''CREATE TABLE a (x); DROP TABLE b; CREATE TABLE c (z);'') 1 = Some (New ''syntax error'')
   \<and> fst (SchemaManager_InitializeSchema
          (example_files ''CREATE TABLE a (x); DROP TABLE b; CREATE TABLE c (z);'')
          example_engine (NewSchemaManager example_sqlite) [])
       = ReturnErr (Errorf ''failed to execute schema statement: '' (New ''syntax error''))
   \<and> snd (snd (SchemaManager_InitializeSchema
          (example_files ''CREATE TABLE a (x); DROP TABLE b; CREATE TABLE c (z);'')
          example_engine (NewSchemaManager example_sqlite) []))
       = [''CREATE TABLE a (x)'', ''DROP TABLE b'']
   \<and> Error (Errorf ''failed to execute schema statement: '' (New ''syntax error''))
       = ''failed to execute schema statement: syntax error''"
proof -
  let ?sm = "NewSchemaManager example_sqlite"
  let ?two = "''CREATE TABLE a (x); CREATE TABLE b (y);''"
  let ?bad = "''CREATE TABLE a (x); DROP TABLE b; CREATE TABLE c (z);''"
  have st: "schema_statements (driver ?sm) ?two = [''CREATE TABLE a (x)'', ''CREATE TABLE b (y)'']"
    by code_simp
  have first: "\<forall>i < length (schema_statements (driver ?sm) ?two).
      benign (result_at example_engine [] (schema_statements (driver ?sm) ?two) i)"
  proof -
    have "benign (result_at example_engine [] [''CREATE TABLE a (x)'', ''CREATE TABLE b (y)''] 0)"
      and "benign (result_at example_engine [] [''CREATE TABLE a (x)'', ''CREATE TABLE b (y)''] (Suc 0))"
      by code_simp+
    then show ?thesis unfolding st by (simp add: less_Suc_eq)
  qed
  have left: "fst (snd (SchemaManager_InitializeSchema (example_files ?two) example_engine ?sm []))
      = [''CREATE TABLE a (x)'', ''CREATE TABLE b (y)'']"
    by code_simp
  have second: "\<forall>i < length (schema_statements (driver ?sm) ?two).
      benign (result_at example_engine
        (fst (snd (SchemaManager_InitializeSchema (example_files ?two) example_engine ?sm [])))
        (schema_statements (driver ?sm) ?two) i)"
  proof -
    have "benign (result_at example_engine [''CREATE TABLE a (x)'', ''CREATE TABLE b (y)'']
            [''CREATE TABLE a (x)'', ''CREATE TABLE b (y)''] 0)"
      and "benign (result_at example_engine [''CREATE TABLE a (x)'', ''CREATE TABLE b (y)'']
            [''CREATE TABLE a (x)'', ''CREATE TABLE b (y)''] (Suc 0))"
      by code_simp+
    then show ?thesis unfolding st left by (simp add: less_Suc_eq)
  qed
  have sb: "schema_statements (driver ?sm) ?bad
      = [''CREATE TABLE a (x)'', ''DROP TABLE b'', ''CREATE TABLE c (z)'']"
    by code_simp
  have i: "1 < length (schema_statements (driver ?sm) ?bad)" unfolding sb by simp
  have r1: "result_at example_engine [] (schema_statements (driver ?sm) ?bad) 1
      = Some (New ''syntax error'')"
    unfolding sb by code_simp
  have nb: "\<not> benign (result_at example_engine [] (schema_statements (driver ?sm) ?bad) 1)"
    unfolding r1 by code_simp
  have b0: "\<forall>j < 1. benign (result_at example_engine [] (schema_statements (driver ?sm) ?bad) j)"
  proof -
    have "benign (result_at example_engine []
        [''CREATE TABLE a (x)'', ''DROP TABLE b'', ''CREATE TABLE c (z)''] 0)"
      by code_simp
    then show ?thesis unfolding sb by simp
  qed
  note good = InitializeSchema_already_exists_swallowed
    [OF example_sqlite_connected example_files_selected, of ?two example_engine "[]"]
  note bad = InitializeSchema_already_exists_swallowed
    [OF example_sqlite_connected example_files_selected, of ?bad example_engine "[]"]
  from good first second
  have g: "fst (SchemaManager_InitializeSchema (example_files ?two) example_engine ?sm []) = ReturnNil
    \<and> fst (SchemaManager_InitializeSchema (example_files ?two) example_engine ?sm
          (fst (snd (SchemaManager_InitializeSchema (example_files ?two) example_engine ?sm []))))
       = ReturnNil"
    by blast
  from bad have "\<forall>i < length (schema_statements (driver ?sm) ?bad).
      \<not> benign (result_at example_engine [] (schema_statements (driver ?sm) ?bad) i)
      \<and> (\<forall>j < i. benign (result_at example_engine [] (schema_statements (driver ?sm) ?bad) j)) \<longrightarrow>
      (\<exists>cause. result_at example_engine [] (schema_statements (driver ?sm) ?bad) i = Some cause
         \<and> \<not> Contains (Error cause) ''already exists''
         \<and> fst (SchemaManager_InitializeSchema (example_files ?bad) example_engine ?sm [])
             = ReturnErr (Errorf ''failed to execute schema statement: '' cause)
         \<and> snd (snd (SchemaManager_InitializeSchema (example_files ?bad) example_engine ?sm []))
             = take (Suc i) (schema_statements (driver ?sm) ?bad))"
    by (elim conjE)
  with i nb b0 obtain cause
    where c: "result_at example_engine [] (schema_statements (driver ?sm) ?bad) 1 = Some cause"
      and e: "fst (SchemaManager_InitializeSchema (example_files ?bad) example_engine ?sm [])
             = ReturnErr (Errorf ''failed to execute schema statement: '' cause)"
      and l: "snd (snd (SchemaManager_InitializeSchema (example_files ?bad) example_engine ?sm []))
             = take (Suc 1) (schema_statements (driver ?sm) ?bad)"
    by blast
  from c r1 have "cause = New ''syntax error''" by simp
  with e l have b: "fst (SchemaManager_InitializeSchema (example_files ?bad) example_engine ?sm [])
                 = ReturnErr (Errorf ''failed to execute schema statement: '' (New ''syntax error''))
     \<and> snd (snd (SchemaManager_InitializeSchema (example_files ?bad) example_engine ?sm []))
                 = [''CREATE TABLE a (x)'', ''DROP TABLE b'']"
    unfolding sb by simp
  from bad have "\<forall>e. fst (SchemaManager_InitializeSchema (example_files ?bad) example_engine ?sm [])
        = ReturnErr e \<longrightarrow>
      (\<exists>cause. e = Errorf ''failed to execute schema statement: '' cause
         \<and> Error e = ''failed to execute schema statement: '' @ Error cause
         \<and> (\<exists>i < length (schema_statements (driver ?sm) ?bad).
               result_at example_engine [] (schema_statements (driver ?sm) ?bad) i = Some cause))"
    by (elim conjE)
  with b obtain cause'
    where "Errorf ''failed to execute schema statement: '' (New ''syntax error'')
        = Errorf ''failed to execute schema statement: '' cause'"
      and "Error (Errorf ''failed to execute schema statement: '' (New ''syntax error''))
        = ''failed to execute schema statement: '' @ Error cause'"
    by blast
  then have m: "Error (Errorf ''failed to execute schema statement: '' (New ''syntax error''))
       = ''failed to execute schema statement: syntax error''"
    by auto
  from g r1 b m show ?thesis by blast
qed

text \<open>
  C10: schema application is not atomic. When \<^verbatim>\<open>InitializeSchema\<close> returns the error of
  a statement, that statement has a result that is not benign, the statements handed to
  the engine are those before it, in order, and the failing one, and the database is left
  in the state that executing them leads to: nothing is undone.
\<close>

theorem InitializeSchema_not_atomic:
  assumes "driver_db (driver sm) = Some pool"
    and "selected_schema fs (driver sm) = Inr schema"
    and "SchemaManager_InitializeSchema fs eng sm db = (ReturnErr e, db', log)"
  shows "\<exists>i < length (schema_statements (driver sm) schema).
           \<not> benign (result_at eng db (schema_statements (driver sm) schema) i)
           \<and> log = take i (schema_statements (driver sm) schema)
                   @ [schema_statements (driver sm) schema ! i]
           \<and> db' = fst (eng (db_after eng db (take i (schema_statements (driver sm) schema)))
                          (schema_statements (driver sm) schema ! i))"
proof -
  let ?st = "schema_statements (driver sm) schema"
  define P where "P i \<longleftrightarrow> i < length ?st \<and> \<not> benign (result_at eng db ?st i)" for i
  have "\<exists>i. P i"
  proof (rule ccontr)
    assume "\<not> (\<exists>i. P i)"
    then have "\<forall>i < length ?st. benign (result_at eng db ?st i)" by (simp add: P_def)
    from InitializeSchema_all_benign [OF assms(1,2) this] assms(3) show False by simp
  qed
  then obtain i where Pi: "P i" and least: "\<forall>j < i. \<not> P j"
    using exists_least_iff [of P] by blast
  from Pi have i: "i < length ?st" and nb: "\<not> benign (result_at eng db ?st i)"
    by (simp_all add: P_def)
  from least i have before: "\<forall>j < i. benign (result_at eng db ?st j)"
    by (auto simp add: P_def)
  from InitializeSchema_first_failure [OF assms(1,2) i nb before] assms(3)
  have "db' = db_after eng db (take (Suc i) ?st)" and "log = take (Suc i) ?st"
    by simp_all
  with i have "log = take i ?st @ [?st ! i]"
    and "db' = fst (eng (db_after eng db (take i ?st)) (?st ! i))"
    by (simp_all add: take_Suc_conv_app_nth db_after_snoc)
  with i nb show ?thesis by blast
qed

text \<open>
  The theorem at a schema whose second statement is a syntax error: the table of the
  first statement stays created.
\<close>

theorem InitializeSchema_not_atomic_witness:
  "SchemaManager_InitializeSchema (example_files ''CREATE TABLE a (x); DROP TABLE b;'')
      example_engine (NewSchemaManager example_sqlite) []
     = (ReturnErr (Errorf ''failed to execute schema statement: '' (New ''syntax error'')),
        [''CREATE TABLE a (x)''], [''CREATE TABLE a (x)'', ''DROP TABLE b''])
   \<and> (\<exists>i < length (schema_statements (driver (NewSchemaManager example_sqlite))
                     ''CREATE TABLE a (x); DROP TABLE b;'').
        \<not> benign (result_at example_engine []
             (schema_statements (driver (NewSchemaManager example_sqlite))
                ''CREATE TABLE a (x); DROP TABLE b;'') i)
        \<and> [''CREATE TABLE a (x)'', ''DROP TABLE b'']
            = take i (schema_statements (driver (NewSchemaManager example_sqlite))
                       ''CREATE TABLE a (x); DROP TABLE b;'')
              @ [schema_statements (driver (NewSchemaManager example_sqlite))
                   ''CREATE TABLE a (x); DROP TABLE b;'' ! i]
        \<and> [''CREATE TABLE a (x)'']
            = fst (example_engine
                 (db_after example_engine []
                    (take i (schema_statements (driver (NewSchemaManager example_sqlite))
                       ''CREATE TABLE a (x); DROP TABLE b;'')))
                 (schema_statements (driver (NewSchemaManager example_sqlite))
                    ''CREATE TABLE a (x); DROP TABLE b;'' ! i)))"
proof -
  have run: "SchemaManager_InitializeSchema (example_files ''CREATE TABLE a (x); DROP TABLE b;'')
      example_engine (NewSchemaManager example_sqlite) []
     = (ReturnErr (Errorf ''failed to execute schema statement: '' (New ''syntax error'')),
        [''CREATE TABLE a (x)''], [''CREATE TABLE a (x)'', ''DROP TABLE b''])"
    by code_simp
  from InitializeSchema_not_atomic [OF example_sqlite_connected example_files_selected run] run
  show ?thesis by blast
qed

section \<open>Migration\<close>

text \<open>
  C2, as stated, fails: the runner is to perform \<open>\<lceil>N/B\<rceil>\<close> batches for a table of \<open>N\<close>
  rows and to leave exactly those \<open>N\<close> rows in the target. For a source of three rows and
  an empty target, \<^verbatim>\<open>migrateData\<close> returns \<^verbatim>\<open>nil\<close>, has executed no statement on the
  target and leaves it empty.
\<close>

theorem migrateData_counterexample:
  "migrateData example_engine example_sqlite example_postgres example_rows []
     = (ReturnNil, [], [])
   \<and> length example_rows = 3
   \<and> length (fst (snd (migrateData example_engine example_sqlite example_postgres
                          example_rows []))) = 0
   \<and> length (snd (snd (migrateData example_engine example_sqlite example_postgres
                          example_rows []))) = 0"
  by (simp add: migrateData_def example_rows_def)

text \<open>
  C2, amended: \<^verbatim>\<open>migrateData\<close> performs no batch. Whatever the source holds, it executes
  no statement on the target, leaves the target database as it was and returns \<^verbatim>\<open>nil\<close>,
  and so does any number of runs in a row: no row is duplicated and none is transferred,
  and the target holds the rows it held before.
\<close>

theorem migrateData_transfers_nothing:
  "migrateData eng source target source_db target_db = (ReturnNil, target_db, [])
   \<and> migrateData_runs k eng source target source_db target_db = (target_db, [])"
proof
  show "migrateData eng source target source_db target_db = (ReturnNil, target_db, [])"
    by (simp add: migrateData_def)
  show "migrateData_runs k eng source target source_db target_db = (target_db, [])"
    by (induction k) (simp_all add: migrateData_def)
qed

end
